theory Spec2Isabelle
  imports Complex_Main
begin

section \<open>Errors, Python containers and numpy arrays\<close>

text \<open>
  Every \<^verbatim>\<open>raise\<close> of \<^verbatim>\<open>tenpy/models/model.py\<close> is a constructor of \<open>error\<close>; the
  \<^verbatim>\<open>ValueError\<close>s are told apart by their message. The remaining constructors are the
  exceptions Python and numpy raise by themselves on the paths that are modelled.
\<close>

datatype error =
    UnknownOnsiteOperator        \<comment> \<open>ValueError "unknown onsite operator ..."\<close>
  | OnsiteNeedsJW                \<comment> \<open>ValueError "can't add onsite operator which needs a Jordan-Wigner string!"\<close>
  | OnlyOneNeedsJW               \<comment> \<open>ValueError "Only one of the operators needs a Jordan-Wigner string?!"\<close>
  | JWWithoutStrOnFirst          \<comment> \<open>ValueError "Jordan Wigner string without `str_on_first`"\<close>
  | CouplingOnsite               \<comment> \<open>ValueError "Coupling shouldn't be onsite!"\<close>
  | Op2Left                      \<comment> \<open>ValueError "Op2 is left"\<close>
  | OddNumberJW                  \<comment> \<open>ValueError "Invalid coupling: odd number of operators which need 'JW' string"\<close>
  | CouplingPurelyOnsite         \<comment> \<open>ValueError "Coupling shouldn't be purely onsite!"\<close>
  | BondsDidNotCapture           \<comment> \<open>ValueError "Bond couplings didn't capture everything. ..."\<close>
  | CalledInitTwice              \<comment> \<open>ValueError "Called CouplingMPOModel.__init__(...) multiple times."\<close>
  | TermError                    \<comment> \<open>ValueError of the term collections (malformed term)\<close>
  | ReshapeError                 \<comment> \<open>ValueError of numpy's reshape\<close>
  | NameError                    \<comment> \<open>use of a name that is not defined\<close>
  | AttributeError
  | IndexError
  | TypeError
  | ZeroDivisionError
  | AssertionError
  | External string              \<comment> \<open>an exception raised inside a collaborator\<close>

text \<open>
  Indexing a Python list with an integer: \<open>xs[i]\<close> for \<open>0 \<le> i < len(xs)\<close>,
  \<open>xs[len(xs) + i]\<close> for \<open>-len(xs) \<le> i < 0\<close>, and \<^verbatim>\<open>IndexError\<close> otherwise.
\<close>

definition py_index :: "'a list \<Rightarrow> int \<Rightarrow> error + 'a" where
  "py_index xs i =
     (if 0 \<le> i \<and> i < int (length xs) then Inr (xs ! nat i)
      else if - int (length xs) \<le> i \<and> i < 0 then Inr (xs ! nat (int (length xs) + i))
      else Inl IndexError)"

text \<open>
  A Python \<^verbatim>\<open>dict\<close> with string keys, in insertion order. \<open>setdefault\<close> returns the
  dictionary (with the default inserted when the key was missing) and the value now stored.
\<close>

type_synonym 'v dict = "(string \<times> 'v) list"

fun dict_set :: "'v dict \<Rightarrow> string \<Rightarrow> 'v \<Rightarrow> 'v dict" where
  "dict_set [] k v = [(k, v)]"
| "dict_set ((k', v') # d) k v = (if k' = k then (k, v) # d else (k', v') # dict_set d k v)"

definition setdefault :: "'v dict \<Rightarrow> string \<Rightarrow> 'v \<Rightarrow> 'v dict \<times> 'v" where
  "setdefault d k v = (case map_of d k of None \<Rightarrow> (d @ [(k, v)], v) | Some w \<Rightarrow> (d, w))"

text \<open>
  A numpy array of numbers: its \<^verbatim>\<open>dtype\<close> (integer, real or complex), its shape and
  its entries in row-major order; a scalar is the array of shape \<open>[]\<close> with one entry.
\<close>

datatype dtype = int64 | float64 | complex128

datatype ndarray = NDArray (dtype: dtype) (shape: "nat list") (flat: "complex list")

definition np_any_nonzero :: "ndarray \<Rightarrow> bool" where
  \<comment> \<open>\<^verbatim>\<open>np.any(strength != 0.)\<close>\<close>
  "np_any_nonzero a = list_ex (\<lambda>x. x \<noteq> 0) (flat a)"

definition np_halve :: "ndarray \<Rightarrow> error + ndarray" where
  \<comment> \<open>\<^verbatim>\<open>strength /= 2\<close> on an array: the quotient is written back into the array, which
      numpy refuses for an integer array (the quotient is real)\<close>
  "np_halve a =
     (if dtype a = int64 then Inl TypeError
      else Inr (NDArray (dtype a) (shape a) (map (\<lambda>x. x / 2) (flat a))))"

definition np_conj :: "ndarray \<Rightarrow> ndarray" where
  "np_conj a = NDArray (dtype a) (shape a) (map cnj (flat a))"

fun ravel :: "nat list \<Rightarrow> nat list \<Rightarrow> nat option" where
  "ravel [] [] = Some 0"
| "ravel (n # shp) (i # idx) =
     (if i < n then map_option (\<lambda>r. i * prod_list shp + r) (ravel shp idx) else None)"
| "ravel _ _ = None"

definition np_get :: "ndarray \<Rightarrow> nat list \<Rightarrow> error + complex" where
  \<comment> \<open>\<^verbatim>\<open>strength[tuple(lat_idx)]\<close>\<close>
  "np_get a idx =
     (case ravel (shape a) idx of
        None \<Rightarrow> Inl IndexError
      | Some k \<Rightarrow> if k < length (flat a) then Inr (flat a ! k) else Inl IndexError)"

section \<open>Collaborators: sites, lattice, tools\<close>

type_synonym opname = string

text \<open>
  A site of \<^verbatim>\<open>tenpy.networks.site\<close>, as far as the models use it. \<open>'t\<close> is the type of
  the tensors (\<^verbatim>\<open>npc.Array\<close>).
\<close>

record 't site =
  valid_opname :: "opname \<Rightarrow> bool"
  op_needs_JW :: "opname \<Rightarrow> bool"
  get_hc_op_name :: "opname \<Rightarrow> opname"
  multiply_op_names :: "opname list \<Rightarrow> opname"
  get_op :: "opname \<Rightarrow> 't"
  site_Id :: "'t"
  site_dim :: nat

text \<open>
  The lattice of \<^verbatim>\<open>tenpy.models.lattice\<close>, as far as the models use it.
  \<open>order_u\<close> is the last column of \<^verbatim>\<open>lat.order\<close>; \<open>mps_lat_idx_fix_u u\<close> is the zipped
  result of the method of that name; \<open>possible_couplings u1 u2 dx\<close> returns the zipped
  \<^verbatim>\<open>mps_i, mps_j, lat_indices\<close> and the shape of the strength array.
\<close>

record 't lattice =
  N_sites :: nat
  lat_dim :: nat
  Ls :: "nat list"
  unit_cell :: "'t site list"
  bc_MPS :: string
  order_u :: "int list"
  mps_sites :: "'t site list"
  mps_lat_idx_fix_u :: "int \<Rightarrow> (int \<times> nat list) list"
  possible_couplings :: "int \<Rightarrow> int \<Rightarrow> int list \<Rightarrow> (int \<times> int \<times> nat list) list \<times> nat list"
  possible_multi_couplings ::
    "(opname \<times> int list \<times> int) list \<Rightarrow> (int list \<times> nat list) list \<times> nat list"

text \<open>
  \<^verbatim>\<open>to_array\<close> of \<^verbatim>\<open>tenpy.tools.misc\<close> tiles a strength to a shape; it is a
  parameter of the model. Where a collaborator can refuse its input it returns an
  option, and the model raises \<open>External\<close> with the collaborator's name.
\<close>

type_synonym to_array_t = "ndarray \<Rightarrow> nat list \<Rightarrow> ndarray option"

section \<open>Term collections\<close>

text \<open>
  Modelled from the spec: the classes \<^verbatim>\<open>OnsiteTerms\<close>, \<^verbatim>\<open>CouplingTerms\<close> and
  \<^verbatim>\<open>MultiCouplingTerms\<close> of \<^verbatim>\<open>tenpy.networks.terms\<close> are not part of the sources.
  Following sections 3 and 4.1 of the specification, a collection keeps one net coefficient
  per term: adding a term that is already present adds the strengths. A coupling term
  needs \<open>0 \<le> i < L\<close> and \<open>i < j\<close>; a multi-site term needs at least two operators at
  strictly increasing indices; a malformed term is rejected before anything is stored.
\<close>

type_synonym 'k coeffs = "('k \<times> complex) list"

fun add_coeff :: "'k coeffs \<Rightarrow> 'k \<Rightarrow> complex \<Rightarrow> 'k coeffs" where
  "add_coeff [] k s = [(k, s)]"
| "add_coeff ((k', s') # ts) k s =
     (if k' = k then (k, s' + s) # ts else (k', s') # add_coeff ts k s)"

type_synonym onsite_key = "int \<times> opname"
type_synonym coupling_key = "int \<times> int \<times> opname \<times> opname \<times> opname"
type_synonym multi_key = "int list \<times> opname list \<times> opname list"

datatype OnsiteTerms = OnsiteTerms (ot_L: nat) (ot_terms: "onsite_key coeffs")

datatype CouplingTerms =
    CouplingTerms (ct_L: nat) (ct_terms: "coupling_key coeffs")
  | MultiCouplingTerms (ct_L: nat) (ct_terms: "coupling_key coeffs") (mct_terms: "multi_key coeffs")

definition ot_add_onsite_term :: "OnsiteTerms \<Rightarrow> complex \<Rightarrow> int \<Rightarrow> opname \<Rightarrow> error + OnsiteTerms" where
  "ot_add_onsite_term ot strength i op =
     (if 0 \<le> i \<and> i < int (ot_L ot)
      then Inr (OnsiteTerms (ot_L ot) (add_coeff (ot_terms ot) (i, op) strength))
      else Inl IndexError)"

fun ct_set_terms :: "CouplingTerms \<Rightarrow> coupling_key coeffs \<Rightarrow> CouplingTerms" where
  "ct_set_terms (CouplingTerms L _) ts = CouplingTerms L ts"
| "ct_set_terms (MultiCouplingTerms L _ ms) ts = MultiCouplingTerms L ts ms"

definition ct_add_coupling_term ::
  "CouplingTerms \<Rightarrow> complex \<Rightarrow> int \<Rightarrow> int \<Rightarrow> opname \<Rightarrow> opname \<Rightarrow> opname \<Rightarrow> error + CouplingTerms" where
  "ct_add_coupling_term ct strength i j op_i op_j op_string =
     (if \<not> (0 \<le> i \<and> i < int (ct_L ct)) then Inl TermError
      else if \<not> i < j then Inl TermError
      else Inr (ct_set_terms ct (add_coeff (ct_terms ct) (i, j, op_i, op_j, op_string) strength)))"

fun strictly_increasing :: "int list \<Rightarrow> bool" where
  "strictly_increasing (i # j # ks) = (i < j \<and> strictly_increasing (j # ks))"
| "strictly_increasing _ = True"

fun is_MultiCouplingTerms :: "CouplingTerms \<Rightarrow> bool" where
  "is_MultiCouplingTerms (MultiCouplingTerms _ _ _) = True"
| "is_MultiCouplingTerms (CouplingTerms _ _) = False"

definition mct_add_multi_coupling_term ::
  "CouplingTerms \<Rightarrow> complex \<Rightarrow> int list \<Rightarrow> opname list \<Rightarrow> opname list \<Rightarrow> error + CouplingTerms" where
  "mct_add_multi_coupling_term ct strength ijkl ops_ijkl op_string =
     (if \<not> is_MultiCouplingTerms ct then Inl AttributeError
      else if length ijkl < 2 then Inl TermError
      else if \<not> strictly_increasing ijkl then Inl TermError
      else if \<not> (0 \<le> hd ijkl \<and> hd ijkl < int (ct_L ct)) then Inl TermError
      else Inr (MultiCouplingTerms (ct_L ct) (ct_terms ct)
                  (add_coeff (mct_terms ct) (ijkl, ops_ijkl, op_string) strength)))"

definition mct_iadd :: "CouplingTerms \<Rightarrow> CouplingTerms \<Rightarrow> CouplingTerms" where
  \<comment> \<open>\<^verbatim>\<open>new_ct += ct\<close>: the strengths of equal terms add\<close>
  "mct_iadd new_ct ct =
     (case new_ct of
        CouplingTerms L ts \<Rightarrow> CouplingTerms L (foldl (\<lambda>acc (k, s). add_coeff acc k s) ts (ct_terms ct))
      | MultiCouplingTerms L ts ms \<Rightarrow>
          MultiCouplingTerms L (foldl (\<lambda>acc (k, s). add_coeff acc k s) ts (ct_terms ct))
            (case ct of CouplingTerms _ _ \<Rightarrow> ms
             | MultiCouplingTerms _ _ ms' \<Rightarrow> foldl (\<lambda>acc (k, s). add_coeff acc k s) ms ms'))"

section \<open>CouplingModel: the state and the \<^verbatim>\<open>add_*\<close> methods\<close>

text \<open>
  The attributes of a \<^verbatim>\<open>CouplingModel\<close>. A method returns the state it leaves behind
  together with the exception it raised, if any: what was stored before a \<^verbatim>\<open>raise\<close>
  stays stored.
\<close>

record 't model =
  lat :: "'t lattice"
  onsite_terms :: "OnsiteTerms dict"
  coupling_terms :: "CouplingTerms dict"
  explicit_plus_hc :: bool

type_synonym 't outcome = "'t model \<times> error option"

definition add_onsite_term ::
  "'t model \<Rightarrow> complex \<Rightarrow> int \<Rightarrow> opname \<Rightarrow> string option \<Rightarrow> bool \<Rightarrow> 't outcome" where
  "add_onsite_term self strength0 i op category0 plus_hc0 =
     (let (plus_hc, strength) =
            (if explicit_plus_hc self
             then (if plus_hc0 then (False, strength0) else (plus_hc0, strength0 / 2))
             else (plus_hc0, strength0));
          category = (case category0 of None \<Rightarrow> op | Some c \<Rightarrow> c);
          (d, ot) = setdefault (onsite_terms self) category (OnsiteTerms (N_sites (lat self)) []);
          self1 = self\<lparr>onsite_terms := d\<rparr>
      in (case ot_add_onsite_term ot strength i op of
            Inl e \<Rightarrow> (self1, Some e)
          | Inr ot' \<Rightarrow>
             (let self2 = self1\<lparr>onsite_terms := dict_set d category ot'\<rparr>
              in (if plus_hc
                  then (case py_index (order_u (lat self2)) i of
                          Inl e \<Rightarrow> (self2, Some e)
                        | Inr u \<Rightarrow>
                            (case py_index (unit_cell (lat self2)) u of
                               Inl e \<Rightarrow> (self2, Some e)
                             | Inr site \<Rightarrow>
                                 \<comment> \<open>\<^verbatim>\<open>hc_op = site.get_hc_op_name(opname)\<close>: no \<^verbatim>\<open>opname\<close> in scope\<close>
                                 (self2, Some NameError)))
                  else (self2, None)))))"

text \<open>
  The three collaborators of the term-adding methods that are not part of a lattice or a
  site: \<^verbatim>\<open>to_array\<close> (see above), and \<^verbatim>\<open>order_combine_term\<close> and
  \<^verbatim>\<open>multi_coupling_term_handle_JW\<close> of \<^verbatim>\<open>tenpy.networks.terms\<close>.
\<close>

record 't tools =
  to_array :: to_array_t
  order_combine_term ::
    "(opname \<times> int) list \<Rightarrow> 't site list \<Rightarrow> ((opname \<times> int) list \<times> complex) option"
  multi_coupling_term_handle_JW ::
    "complex \<Rightarrow> (opname \<times> int) list \<Rightarrow> 't site list \<Rightarrow> opname option
       \<Rightarrow> (complex \<times> int list \<times> opname list \<times> opname list) option"

definition handle_explicit_plus_hc :: "bool \<Rightarrow> bool \<Rightarrow> 'a \<Rightarrow> ('a \<Rightarrow> 'a) \<Rightarrow> bool \<times> 'a" where
  \<comment> \<open>the block \<^verbatim>\<open>if self.explicit_plus_hc: if plus_hc: plus_hc = False else: strength /= 2\<close>
      of the methods that take one number as strength\<close>
  "handle_explicit_plus_hc explicit plus_hc strength halve =
     (if explicit then (if plus_hc then (False, strength) else (plus_hc, halve strength))
      else (plus_hc, strength))"

definition handle_explicit_plus_hc_array :: "bool \<Rightarrow> bool \<Rightarrow> ndarray \<Rightarrow> error + bool \<times> ndarray" where
  \<comment> \<open>the same block of the methods whose strength is an array after \<^verbatim>\<open>to_array\<close>\<close>
  "handle_explicit_plus_hc_array explicit plus_hc strength =
     (if explicit
      then (if plus_hc then Inr (False, strength)
            else (case np_halve strength of
                    Inl e \<Rightarrow> Inl e
                  | Inr halved \<Rightarrow> Inr (plus_hc, halved)))
      else Inr (plus_hc, strength))"

text \<open>
  A \<^verbatim>\<open>for\<close> loop over a list whose body updates a value in place and may raise: the
  loop stops at the first exception, and what the earlier rounds did stays done.
\<close>

fun for_loop :: "('s \<Rightarrow> 'a \<Rightarrow> error + 's) \<Rightarrow> 's \<Rightarrow> 'a list \<Rightarrow> 's \<times> error option" where
  "for_loop body s [] = (s, None)"
| "for_loop body s (x # xs) =
     (case body s x of
        Inl e \<Rightarrow> (s, Some e)
      | Inr s' \<Rightarrow> for_loop body s' xs)"

definition add_onsite_body ::
  "ndarray \<Rightarrow> opname \<Rightarrow> OnsiteTerms \<Rightarrow> int \<times> nat list \<Rightarrow> error + OnsiteTerms" where
  \<comment> \<open>\<^verbatim>\<open>ot.add_onsite_term(strength[tuple(i_lat)], i, opname)\<close>\<close>
  "add_onsite_body strength opname ot p =
     (case p of (i, i_lat) \<Rightarrow>
        (case np_get strength i_lat of
           Inl e \<Rightarrow> Inl e
         | Inr s \<Rightarrow> ot_add_onsite_term ot s i opname))"

definition add_onsite_loop ::
  "OnsiteTerms \<Rightarrow> ndarray \<Rightarrow> opname \<Rightarrow> (int \<times> nat list) list \<Rightarrow> OnsiteTerms \<times> error option" where
  "add_onsite_loop ot strength opname idx = for_loop (add_onsite_body strength opname) ot idx"

function add_onsite ::
  "'t tools \<Rightarrow> 't model \<Rightarrow> ndarray \<Rightarrow> int \<Rightarrow> opname \<Rightarrow> string option \<Rightarrow> bool \<Rightarrow> 't outcome" where
  "add_onsite tools self strength0 u opname category0 plus_hc0 =
     (case to_array tools strength0 (Ls (lat self)) of
        None \<Rightarrow> (self, Some (External ''to_array''))
      | Some strength1 \<Rightarrow>
         (if \<not> np_any_nonzero strength1 then (self, None)
          else
           (case handle_explicit_plus_hc_array (explicit_plus_hc self) plus_hc0 strength1 of
              Inl e \<Rightarrow> (self, Some e)
            | Inr (plus_hc, strength) \<Rightarrow>
               (case py_index (unit_cell (lat self)) u of
                  Inl e \<Rightarrow> (self, Some e)
                | Inr site \<Rightarrow>
                   (if \<not> valid_opname site opname then (self, Some UnknownOnsiteOperator)
                    else if op_needs_JW site opname then (self, Some OnsiteNeedsJW)
                    else
                     (let category = (case category0 of None \<Rightarrow> opname | Some c \<Rightarrow> c);
                          (d, ot) = setdefault (onsite_terms self) category
                                      (OnsiteTerms (N_sites (lat self)) []);
                          (ot', err) = add_onsite_loop ot strength opname
                                         (mps_lat_idx_fix_u (lat self) u);
                          self2 = self\<lparr>onsite_terms := dict_set d category ot'\<rparr>
                      in (case err of
                            Some e \<Rightarrow> (self2, Some e)
                          | None \<Rightarrow>
                             (if plus_hc
                              then add_onsite tools self2 (np_conj strength) u
                                     (get_hc_op_name site opname) (Some category) False
                              else (self2, None)))))))))"
  by pat_completeness auto
termination
  by (relation "measure (\<lambda>(tools, self, strength0, u, opname, category0, plus_hc0).
                           if plus_hc0 \<and> \<not> explicit_plus_hc self then 1 else 0)")
     (auto simp: handle_explicit_plus_hc_array_def split: if_splits sum.splits)

declare add_onsite.simps [simp del]

definition coupling_swap ::
  "int \<Rightarrow> int \<Rightarrow> complex \<Rightarrow> opname \<Rightarrow> opname \<Rightarrow> 't site \<Rightarrow> 't site \<Rightarrow> opname \<Rightarrow> bool
     \<Rightarrow> error + (int \<times> int \<times> complex \<times> opname \<times> opname \<times> 't site)" where
  \<comment> \<open>the block \<^verbatim>\<open>if j < i: ...\<close> of the loop of \<^verbatim>\<open>add_coupling\<close>\<close>
  "coupling_swap i j current_strength op1 op2 site1 site2 op_string raise_op2_left =
     (if j < i
      then (let current_strength' =
                  (if op_string = ''JW'' then - current_strength else current_strength)
            in if raise_op2_left then Inl Op2Left
               else Inr (j, i, current_strength', op2, op1, site2))
      else Inr (i, j, current_strength, op1, op2, site1))"

definition add_coupling_body ::
  "ndarray \<Rightarrow> opname \<Rightarrow> opname \<Rightarrow> 't site \<Rightarrow> 't site \<Rightarrow> opname \<Rightarrow> bool \<Rightarrow> bool
     \<Rightarrow> CouplingTerms \<Rightarrow> int \<times> int \<times> nat list \<Rightarrow> error + CouplingTerms" where
  \<comment> \<open>the body of the loop \<^verbatim>\<open>for i, j, lat_idx in zip(mps_i, mps_j, lat_indices)\<close>\<close>
  "add_coupling_body strength op1 op2 site1 site2 op_string str_on_first raise_op2_left ct p =
     (case p of (i, j, lat_idx) \<Rightarrow>
        (case np_get strength lat_idx of
           Inl e \<Rightarrow> Inl e
         | Inr current_strength \<Rightarrow>
            (if current_strength = 0 then Inr ct
             else
              (case coupling_swap i j current_strength op1 op2 site1 site2 op_string
                      raise_op2_left of
                 Inl e \<Rightarrow> Inl e
               | Inr (i', j', cs, o1, o2, site_i) \<Rightarrow>
                  (let o1' = (if str_on_first \<and> op_string \<noteq> ''Id''
                              then multiply_op_names site_i [o1, op_string] else o1)
                   in ct_add_coupling_term ct cs i' j' o1' o2 op_string)))))"

definition add_coupling_loop ::
  "CouplingTerms \<Rightarrow> ndarray \<Rightarrow> opname \<Rightarrow> opname \<Rightarrow> 't site \<Rightarrow> 't site \<Rightarrow> opname \<Rightarrow> bool \<Rightarrow> bool
     \<Rightarrow> (int \<times> int \<times> nat list) list \<Rightarrow> CouplingTerms \<times> error option" where
  "add_coupling_loop ct strength op1 op2 site1 site2 op_string str_on_first raise_op2_left pairs =
     for_loop (add_coupling_body strength op1 op2 site1 site2 op_string str_on_first
                 raise_op2_left) ct pairs"

definition determine_op_string ::
  "'t site \<Rightarrow> opname \<Rightarrow> 't site \<Rightarrow> opname \<Rightarrow> opname option \<Rightarrow> bool \<Rightarrow> error + (opname \<times> bool)" where
  \<comment> \<open>the block \<^verbatim>\<open>if op_string is None: ...\<close> of \<^verbatim>\<open>add_coupling\<close>\<close>
  "determine_op_string site1 op1 site2 op2 op_string0 str_on_first0 =
     (case op_string0 of
        None \<Rightarrow>
          (let need_JW1 = op_needs_JW site1 op1;
               need_JW2 = op_needs_JW site2 op2
           in if need_JW1 \<and> need_JW2 then Inr (''JW'', True)
              else if need_JW1 \<or> need_JW2 then Inl OnlyOneNeedsJW
              else Inr (''Id'', str_on_first0))
      | Some s \<Rightarrow> Inr (s, str_on_first0))"

function add_coupling ::
  "'t tools \<Rightarrow> 't model \<Rightarrow> ndarray \<Rightarrow> int \<Rightarrow> opname \<Rightarrow> int \<Rightarrow> opname \<Rightarrow> int list \<Rightarrow> opname option
     \<Rightarrow> bool \<Rightarrow> bool \<Rightarrow> string option \<Rightarrow> bool \<Rightarrow> 't outcome" where
  "add_coupling tools self strength0 u1 op1 u2 op2 dx op_string0 str_on_first0 raise_op2_left
     category0 plus_hc0 =
     (if length dx \<noteq> lat_dim (lat self) then (self, Some ReshapeError)
      else if \<not> np_any_nonzero strength0 then (self, None)
      else
       (case py_index (unit_cell (lat self)) u1 of
          Inl e \<Rightarrow> (self, Some e)
        | Inr site1 \<Rightarrow>
       (if \<not> valid_opname site1 op1 then (self, Some UnknownOnsiteOperator)
        else
       (case py_index (unit_cell (lat self)) u2 of
          Inl e \<Rightarrow> (self, Some e)
        | Inr site2 \<Rightarrow>
       (if \<not> valid_opname site2 op2 then (self, Some UnknownOnsiteOperator)
        else
       (case determine_op_string site1 op1 site2 op2 op_string0 str_on_first0 of
          Inl e \<Rightarrow> (self, Some e)
        | Inr (op_string, str_on_first) \<Rightarrow>
       (if \<not> list_all (\<lambda>s. valid_opname s op_string) (unit_cell (lat self))
        then (self, Some UnknownOnsiteOperator)
        else if op_string = ''JW'' \<and> \<not> str_on_first then (self, Some JWWithoutStrOnFirst)
        else if list_all (\<lambda>x. x = 0) dx \<and> u1 = u2 then (self, Some CouplingOnsite)
        else
       (let (pairs, strength_shape) = possible_couplings (lat self) u1 u2 dx
        in (case to_array tools strength0 strength_shape of
              None \<Rightarrow> (self, Some (External ''to_array''))
            | Some strength1 \<Rightarrow>
       (case handle_explicit_plus_hc_array (explicit_plus_hc self) plus_hc0 strength1 of
          Inl e \<Rightarrow> (self, Some e)
        | Inr (plus_hc, strength) \<Rightarrow>
       (let category = (case category0 of None \<Rightarrow> op1 @ ''_i '' @ op2 @ ''_j'' | Some c \<Rightarrow> c);
            (d, ct) = setdefault (coupling_terms self) category
                        (CouplingTerms (N_sites (lat self)) []);
            (ct', err) = add_coupling_loop ct strength op1 op2 site1 site2 op_string str_on_first
                           raise_op2_left pairs;
            self2 = self\<lparr>coupling_terms := dict_set d category ct'\<rparr>
        in (case err of
              Some e \<Rightarrow> (self2, Some e)
            | None \<Rightarrow>
               (if plus_hc
                then add_coupling tools self2 (np_conj strength) u2 (get_hc_op_name site2 op2)
                       u1 (get_hc_op_name site1 op1) (map uminus dx)
                       (Some (get_hc_op_name site2 op_string)) str_on_first raise_op2_left
                       (Some category) False
                else (self2, None))))))))))))))"
  by pat_completeness auto
termination
  by (relation "measure (\<lambda>(tools, self, strength0, u1, op1, u2, op2, dx, op_string0, str_on_first0,
                            raise_op2_left, category0, plus_hc0).
                           if plus_hc0 \<and> \<not> explicit_plus_hc self then 1 else 0)")
     (auto simp: handle_explicit_plus_hc_array_def split: if_splits sum.splits)

declare add_coupling.simps [simp del]

definition site_at :: "'t lattice \<Rightarrow> int \<Rightarrow> error + 't site" where
  \<comment> \<open>\<^verbatim>\<open>self.lat.unit_cell[self.lat.order[i, -1]]\<close>\<close>
  "site_at l i =
     (case py_index (order_u l) i of
        Inl e \<Rightarrow> Inl e
      | Inr u \<Rightarrow> py_index (unit_cell l) u)"

definition site_at_mod :: "'t lattice \<Rightarrow> int \<Rightarrow> error + 't site" where
  \<comment> \<open>\<^verbatim>\<open>self.lat.unit_cell[self.lat.order[i % self.lat.N_sites, -1]]\<close>\<close>
  "site_at_mod l i =
     (if N_sites l = 0 then Inl ZeroDivisionError else site_at l (i mod int (N_sites l)))"

definition add_coupling_term ::
  "'t model \<Rightarrow> complex \<Rightarrow> int \<Rightarrow> int \<Rightarrow> opname \<Rightarrow> opname \<Rightarrow> opname \<Rightarrow> string option \<Rightarrow> bool
     \<Rightarrow> 't outcome" where
  "add_coupling_term self strength0 i j op_i op_j op_string category0 plus_hc0 =
     (let (plus_hc, strength) =
            handle_explicit_plus_hc (explicit_plus_hc self) plus_hc0 strength0 (\<lambda>x. x / 2);
          category = (case category0 of None \<Rightarrow> op_i @ ''_i '' @ op_j @ ''_j'' | Some c \<Rightarrow> c);
          (d, ct) = setdefault (coupling_terms self) category
                      (CouplingTerms (N_sites (lat self)) []);
          self1 = self\<lparr>coupling_terms := d\<rparr>
      in (case ct_add_coupling_term ct strength i j op_i op_j op_string of
            Inl e \<Rightarrow> (self1, Some e)
          | Inr ct1 \<Rightarrow>
             (let self2 = self1\<lparr>coupling_terms := dict_set d category ct1\<rparr>
              in (if plus_hc
                  then (case site_at (lat self2) i of
                          Inl e \<Rightarrow> (self2, Some e)
                        | Inr site_i \<Rightarrow>
                           (case site_at_mod (lat self2) j of
                              Inl e \<Rightarrow> (self2, Some e)
                            | Inr site_j \<Rightarrow>
                               (let hc_op_i = get_hc_op_name site_i op_i;
                                    hc_op_string = get_hc_op_name site_i op_string;
                                    hc_op_j = get_hc_op_name site_j op_j
                                in (case ct_add_coupling_term ct1 (cnj strength) i j
                                           hc_op_i hc_op_j hc_op_string of
                                      Inl e \<Rightarrow> (self2, Some e)
                                    | Inr ct2 \<Rightarrow>
                                        (self2\<lparr>coupling_terms := dict_set d category ct2\<rparr>,
                                         None)))))
                  else (self2, None)))))"

fun join_space :: "string list \<Rightarrow> string" where
  \<comment> \<open>\<^verbatim>\<open>" ".join(...)\<close>\<close>
  "join_space [] = []"
| "join_space [x] = x"
| "join_space (x # xs) = x @ '' '' @ join_space xs"

definition default_multi_category :: "opname list \<Rightarrow> string" where
  \<comment> \<open>\<^verbatim>\<open>" ".join(["{op}_{i}".format(op=op, i=chr(ord('i') + m)) for m, op in enumerate(ops)])\<close>\<close>
  "default_multi_category ops =
     join_space (map (\<lambda>(m, op). op @ ''_'' @ [char_of (105 + m)]) (enumerate 0 ops))"

fun mapM :: "('a \<Rightarrow> error + 'b) \<Rightarrow> 'a list \<Rightarrow> error + 'b list" where
  \<comment> \<open>a list comprehension whose element expression may raise\<close>
  "mapM f [] = Inr []"
| "mapM f (x # xs) =
     (case f x of
        Inl e \<Rightarrow> Inl e
      | Inr y \<Rightarrow> (case mapM f xs of Inl e \<Rightarrow> Inl e | Inr ys \<Rightarrow> Inr (y # ys)))"

definition to_MultiCouplingTerms ::
  "CouplingTerms dict \<Rightarrow> string \<Rightarrow> CouplingTerms \<Rightarrow> nat \<Rightarrow> CouplingTerms dict \<times> CouplingTerms" where
  \<comment> \<open>the block \<^verbatim>\<open>if not isinstance(ct, MultiCouplingTerms): ...\<close>\<close>
  "to_MultiCouplingTerms d category ct N =
     (if \<not> is_MultiCouplingTerms ct
      then (let new_ct = mct_iadd (MultiCouplingTerms N [] []) ct
            in (dict_set d category new_ct, new_ct))
      else (d, ct))"

definition add_multi_coupling_term ::
  "'t model \<Rightarrow> complex \<Rightarrow> int list \<Rightarrow> opname list \<Rightarrow> opname list \<Rightarrow> string option \<Rightarrow> bool
     \<Rightarrow> 't outcome" where
  "add_multi_coupling_term self strength0 ijkl ops_ijkl op_string category0 plus_hc0 =
     (let (plus_hc, strength) =
            handle_explicit_plus_hc (explicit_plus_hc self) plus_hc0 strength0 (\<lambda>x. x / 2);
          category = (case category0 of None \<Rightarrow> default_multi_category ops_ijkl | Some c \<Rightarrow> c);
          (d, ct) =
            (case map_of (coupling_terms self) category of
               None \<Rightarrow> (let ct = MultiCouplingTerms (N_sites (lat self)) [] []
                        in (dict_set (coupling_terms self) category ct, ct))
             | Some ct \<Rightarrow>
                 to_MultiCouplingTerms (coupling_terms self) category ct (N_sites (lat self)));
          self1 = self\<lparr>coupling_terms := d\<rparr>
      in (case mct_add_multi_coupling_term ct strength ijkl ops_ijkl op_string of
            Inl e \<Rightarrow> (self1, Some e)
          | Inr ct1 \<Rightarrow>
             (let self2 = self1\<lparr>coupling_terms := dict_set d category ct1\<rparr>
              in (if plus_hc
                  then (case mapM (site_at_mod (lat self2)) ijkl of
                          Inl e \<Rightarrow> (self2, Some e)
                        | Inr sites_ijkl \<Rightarrow>
                           (let hc_ops = map (\<lambda>(site, op). get_hc_op_name site op)
                                           (zip sites_ijkl ops_ijkl);
                                hc_op_string = map (\<lambda>(site, op). get_hc_op_name site op)
                                                 (zip sites_ijkl op_string)
                            in (case mct_add_multi_coupling_term ct1 (cnj strength) ijkl
                                       ops_ijkl op_string of
                                  Inl e \<Rightarrow> (self2, Some e)
                                | Inr ct2 \<Rightarrow>
                                    (self2\<lparr>coupling_terms := dict_set d category ct2\<rparr>, None))))
                  else (self2, None)))))"

definition add_multi_coupling_body ::
  "'t tools \<Rightarrow> ndarray \<Rightarrow> opname list \<Rightarrow> 't site list \<Rightarrow> opname option
     \<Rightarrow> CouplingTerms \<Rightarrow> int list \<times> nat list \<Rightarrow> error + CouplingTerms" where
  \<comment> \<open>the body of the loop \<^verbatim>\<open>for ijkl, i_lat in zip(mps_ijkl, lat_indices)\<close>\<close>
  "add_multi_coupling_body tools strength all_ops sites op_string ct p =
     (case p of (ijkl, i_lat) \<Rightarrow>
        (case np_get strength i_lat of
           Inl e \<Rightarrow> Inl e
         | Inr current_strength \<Rightarrow>
            (if current_strength = 0 then Inr ct
             else
              (case order_combine_term tools (zip all_ops ijkl) sites of
                 None \<Rightarrow> Inl (External ''order_combine_term'')
               | Some (term, sign) \<Rightarrow>
                  (case multi_coupling_term_handle_JW tools (current_strength * sign) term sites
                          op_string of
                     None \<Rightarrow> Inl (External ''multi_coupling_term_handle_JW'')
                   | Some (s, ijkl', ops', op_string') \<Rightarrow>
                       mct_add_multi_coupling_term ct s ijkl' ops' op_string')))))"

definition add_multi_coupling_loop ::
  "'t tools \<Rightarrow> CouplingTerms \<Rightarrow> ndarray \<Rightarrow> opname list \<Rightarrow> 't site list \<Rightarrow> opname option
     \<Rightarrow> (int list \<times> nat list) list \<Rightarrow> CouplingTerms \<times> error option" where
  "add_multi_coupling_loop tools ct strength all_ops sites op_string idx =
     for_loop (add_multi_coupling_body tools strength all_ops sites op_string) ct idx"

definition need_JW_of_ops ::
  "'t lattice \<Rightarrow> (opname \<times> int list \<times> int) list \<Rightarrow> error + bool list" where
  \<comment> \<open>\<^verbatim>\<open>[self.lat.unit_cell[u].op_needs_JW(op) for op, _, u in ops]\<close>\<close>
  "need_JW_of_ops l ops =
     mapM (\<lambda>(op, dx, u). case py_index (unit_cell l) u of
                             Inl e \<Rightarrow> Inl e
                           | Inr site \<Rightarrow> Inr (op_needs_JW site op)) ops"

text \<open>
  \<^verbatim>\<open>add_multi_coupling\<close> with its argument \<open>ops\<close> in the current form, a list of
  \<open>(opname, dx, u)\<close>; the deprecated three-argument form only rearranges its arguments
  into this one.
\<close>

function add_multi_coupling ::
  "'t tools \<Rightarrow> 't model \<Rightarrow> ndarray \<Rightarrow> (opname \<times> int list \<times> int) list \<Rightarrow> opname option
     \<Rightarrow> string option \<Rightarrow> bool \<Rightarrow> 't outcome" where
  "add_multi_coupling tools self strength0 ops op_string0 category0 plus_hc0 =
     (let all_ops = map fst ops;
          all_us = map (\<lambda>(op, dx, u). u) ops;
          all_dxs = map (\<lambda>(op, dx, u). dx) ops
      in
      (if \<not> list_all (\<lambda>dx. length dx = lat_dim (lat self)) all_dxs
       then (self, Some ReshapeError)
       else if \<not> np_any_nonzero strength0 then (self, None)
       else
       (case need_JW_of_ops (lat self) ops of
          Inl e \<Rightarrow> (self, Some e)
        | Inr need_JW \<Rightarrow>
       (if \<not> length (filter id need_JW) mod 2 = 0 then (self, Some OddNumberJW)
        else
       (let op_string = (if op_string0 = None \<and> \<not> list_ex id need_JW
                         then Some ''Id'' else op_string0)
        in
       (case mapM (\<lambda>(op, dx, u). case py_index (unit_cell (lat self)) u of
                                     Inl e \<Rightarrow> Inl e
                                   | Inr site \<Rightarrow> if \<not> valid_opname site op
                                                 then Inl UnknownOnsiteOperator
                                                 else Inr ()) ops of
          Inl e \<Rightarrow> (self, Some e)
        | Inr _ \<Rightarrow>
       (if op_string \<noteq> None
             \<and> \<not> list_all (\<lambda>s. valid_opname s (the op_string)) (unit_cell (lat self))
        then (self, Some UnknownOnsiteOperator)
        else if ops = [] then (self, Some IndexError)
        else if list_all (\<lambda>dx. dx = hd all_dxs) all_dxs \<and> list_all (\<lambda>u. hd all_us = u) all_us
        then (self, Some CouplingPurelyOnsite)
        else
       (let (mps_ijkl_lat_indices, strength_shape) = possible_multi_couplings (lat self) ops
        in (case to_array tools strength0 strength_shape of
              None \<Rightarrow> (self, Some (External ''to_array''))
            | Some strength1 \<Rightarrow>
       (case handle_explicit_plus_hc_array (explicit_plus_hc self) plus_hc0 strength1 of
          Inl e \<Rightarrow> (self, Some e)
        | Inr (plus_hc, strength) \<Rightarrow>
       (let category = (case category0 of None \<Rightarrow> default_multi_category all_ops | Some c \<Rightarrow> c);
            (d0, ct0) = setdefault (coupling_terms self) category
                          (MultiCouplingTerms (N_sites (lat self)) [] []);
            (d, ct) = to_MultiCouplingTerms d0 category ct0 (N_sites (lat self));
            sites = mps_sites (lat self);
            (ct', err) = add_multi_coupling_loop tools ct strength all_ops sites op_string
                           mps_ijkl_lat_indices;
            self2 = self\<lparr>coupling_terms := dict_set d category ct'\<rparr>
        in (case err of
              Some e \<Rightarrow> (self2, Some e)
            | None \<Rightarrow>
               (if plus_hc
                then (case mapM (\<lambda>(opname, dx, u).
                                   case py_index (unit_cell (lat self)) u of
                                     Inl e \<Rightarrow> Inl e
                                   | Inr site \<Rightarrow> Inr (get_hc_op_name site opname, dx, u))
                             (rev ops) of
                        Inl e \<Rightarrow> (self2, Some e)
                      | Inr hc_ops \<Rightarrow>
                          add_multi_coupling tools self2 (np_conj strength) hc_ops None
                            (Some category) False)
                else (self2, None))))))))))))))"
  by pat_completeness auto
termination
  by (relation "measure (\<lambda>(tools, self, strength0, ops, op_string0, category0, plus_hc0).
                           if plus_hc0 \<and> \<not> explicit_plus_hc self then 1 else 0)")
     (auto simp: handle_explicit_plus_hc_array_def split: if_splits sum.splits)

declare add_multi_coupling.simps [simp del]

section \<open>Tensors and the bond Hamiltonian of a CouplingModel\<close>

text \<open>
  The operations of \<^verbatim>\<open>tenpy.linalg.np_conserved\<close> that the models call, on tensors of
  type \<open>'t\<close>: the outer product, the sum, the product with a number, the Hermitian
  conjugate \<^verbatim>\<open>Hb.conj().itranspose(Hb.get_leg_labels())\<close>, the norm, the contraction of
  a row of an MPO tensor with a column of the next one over the virtual leg, the norm of
  an MPO tensor, and relabelling, transposing and combining legs. An MPO tensor \<open>W\<close> is
  the matrix of its blocks \<open>W[a, b, :, :]\<close>, indexed by the two virtual legs.
\<close>

type_synonym leg = "string \<times> bool"

definition leg_conj :: "leg \<Rightarrow> leg" where
  "leg_conj l = (fst l, \<not> snd l)"

record 't npc =
  outer :: "'t \<Rightarrow> 't \<Rightarrow> 't"
  tadd :: "'t \<Rightarrow> 't \<Rightarrow> 't"
  tscale :: "complex \<Rightarrow> 't \<Rightarrow> 't"
  hconj :: "'t \<Rightarrow> 't"
  tnorm :: "'t \<Rightarrow> real"
  tensordot_wR_wL :: "'t list \<Rightarrow> 't list \<Rightarrow> 't"
  norm_W :: "'t list list \<Rightarrow> real"
  set_leg_labels :: "'t \<Rightarrow> string list \<Rightarrow> 't"
  transpose_legs :: "'t \<Rightarrow> string list \<Rightarrow> 't"
  combine_legs :: "'t \<Rightarrow> nat list list \<Rightarrow> leg list \<Rightarrow> 't"

definition add_with_None_0 :: "'t npc \<Rightarrow> 't option \<Rightarrow> 't option \<Rightarrow> 't option" where
  \<comment> \<open>of \<^verbatim>\<open>tenpy.tools.misc\<close>: the sum, with \<^verbatim>\<open>None\<close> for zero\<close>
  "add_with_None_0 npc a b =
     (case a of
        None \<Rightarrow> b
      | Some x \<Rightarrow> (case b of None \<Rightarrow> a | Some y \<Rightarrow> Some (tadd npc x y)))"












definition plus_hermitian_conjugate :: "'t npc \<Rightarrow> 't option list \<Rightarrow> 't option list" where
  \<comment> \<open>the loop \<^verbatim>\<open>H_bond[i] = Hb + Hb.conj().itranspose(Hb.get_leg_labels())\<close>\<close>
  "plus_hermitian_conjugate npc H_bond =
     map (\<lambda>Hb. case Hb of None \<Rightarrow> None | Some t \<Rightarrow> Some (tadd npc t (hconj npc t))) H_bond"






section \<open>MPOModel: the bond Hamiltonian of an MPO\<close>

text \<open>
  Sequencing of steps that may raise, and a loop whose state is local to the method, so
  that nothing of it is left after an exception.
\<close>

definition andthen :: "error + 'a \<Rightarrow> ('a \<Rightarrow> error + 'b) \<Rightarrow> error + 'b" where
  "andthen x f = (case x of Inl e \<Rightarrow> Inl e | Inr v \<Rightarrow> f v)"

fun foldM :: "('s \<Rightarrow> 'a \<Rightarrow> error + 's) \<Rightarrow> 's \<Rightarrow> 'a list \<Rightarrow> error + 's" where
  "foldM body s [] = Inr s"
| "foldM body s (x # xs) = andthen (body s x) (\<lambda>s'. foldM body s' xs)"

text \<open>
  The MPO of \<^verbatim>\<open>tenpy.networks.mpo\<close>, as far as \<^verbatim>\<open>calc_H_bond_from_MPO\<close> reads it: its
  sites, its tensors, whether its boundary conditions are finite, and the indices of the
  identity channels on each of the \<open>L + 1\<close> bonds (\<^verbatim>\<open>None\<close> where there is none). \<open>L\<close> is
  the number of sites. An \<^verbatim>\<open>MPOModel\<close> holds the MPO; the attribute
  \<^verbatim>\<open>explicit_plus_hc\<close> exists only if another base class has set it.
\<close>

record 't MPO =
  mpo_sites :: "'t site list"
  mpo_Ws :: "'t list list list"
  mpo_finite :: bool
  IdL :: "int option list"
  IdR :: "int option list"

record 't mpo_model =
  H_MPO :: "'t MPO"
  attr_explicit_plus_hc :: "bool option"

definition channel :: "nat \<Rightarrow> int option \<Rightarrow> error + nat" where
  \<comment> \<open>an index into a virtual leg of dimension \<open>n\<close>\<close>
  "channel n a =
     (case a of
        None \<Rightarrow> Inl TypeError
      | Some i \<Rightarrow> (if 0 \<le> i \<and> i < int n then Inr (nat i)
                   else if - int n \<le> i \<and> i < 0 then Inr (nat (int n + i))
                   else Inl IndexError))"

definition wL_dim :: "'t list list \<Rightarrow> nat" where
  "wL_dim W = length W"

definition wR_dim :: "'t list list \<Rightarrow> nat" where
  "wR_dim W = (case W of [] \<Rightarrow> 0 | row # _ \<Rightarrow> length row)"

definition zero_block :: "'t npc \<Rightarrow> 't list list \<Rightarrow> nat \<Rightarrow> nat \<Rightarrow> 't list list" where
  \<comment> \<open>\<^verbatim>\<open>W[a, b, :, :] *= 0\<close>\<close>
  "zero_block npc W a b = W[a := (W ! a)[b := tscale npc 0 (W ! a ! b)]]"

definition zero_row :: "'t npc \<Rightarrow> 't list list \<Rightarrow> nat \<Rightarrow> 't list list" where
  \<comment> \<open>\<^verbatim>\<open>W[a, :, :, :] *= 0.\<close>\<close>
  "zero_row npc W a = W[a := map (tscale npc 0) (W ! a)]"

definition zero_column :: "'t npc \<Rightarrow> 't list list \<Rightarrow> nat \<Rightarrow> 't list list" where
  \<comment> \<open>\<^verbatim>\<open>W[:, b, :, :] *= 0.\<close>\<close>
  "zero_column npc W b = map (\<lambda>row. row[b := tscale npc 0 (row ! b)]) W"

definition take_out_onsite ::
  "'t npc \<Rightarrow> 't MPO \<Rightarrow> nat \<Rightarrow> 't list list \<Rightarrow> error + ('t list list \<times> 't)" where
  \<comment> \<open>the body of the first loop: the tensor without its onsite term and identities, and
      the onsite term\<close>
  "take_out_onsite npc H i W =
     andthen (py_index (IdL H) (int i)) (\<lambda>IdL_a.
     andthen (py_index (IdR H) (int i)) (\<lambda>IdR_a.
     andthen (py_index (IdL H) (int i + 1)) (\<lambda>IdL_b.
     andthen (py_index (IdR H) (int i + 1)) (\<lambda>IdR_b.
     andthen (channel (wL_dim W) IdL_a) (\<lambda>a.
     andthen (channel (wR_dim W) IdR_b) (\<lambda>b.
       let H_onsite_i = W ! a ! b;
           W1 = zero_block npc W a b
       in andthen (if IdR_a \<noteq> None
                   then andthen (channel (wL_dim W1) IdR_a) (\<lambda>a'. Inr (zero_block npc W1 a' b))
                   else Inr W1) (\<lambda>W2.
          andthen (if IdL_b \<noteq> None
                   then andthen (channel (wR_dim W2) IdL_b) (\<lambda>b'. Inr (zero_block npc W2 a b'))
                   else Inr W2) (\<lambda>W3.
          Inr (W3, H_onsite_i)))))))))"

definition take_out_onsite_body ::
  "'t npc \<Rightarrow> 't MPO \<Rightarrow> 't list list list \<times> 't option list \<Rightarrow> nat
     \<Rightarrow> error + ('t list list list \<times> 't option list)" where
  "take_out_onsite_body npc H st i =
     (case st of (Ws, H_onsite) \<Rightarrow>
        andthen (take_out_onsite npc H i (Ws ! i)) (\<lambda>(W, h).
          Inr (Ws[i := W], H_onsite[i := Some h])))"

definition multiply_bond_body ::
  "'t npc \<Rightarrow> 't MPO \<Rightarrow> 't list list list \<times> 't option list \<Rightarrow> nat
     \<Rightarrow> error + ('t list list list \<times> 't option list)" where
  \<comment> \<open>the body of the second loop, for the bond \<open>(j - 1, j)\<close>\<close>
  "multiply_bond_body npc H st j =
     (case st of (Ws, H_bond) \<Rightarrow>
        (if mpo_finite H \<and> j = 0 then Inr (Ws, H_bond)
         else
          (let L = length (mpo_sites H);
               i = (j + L - 1) mod L
           in andthen (py_index (IdL H) (int i)) (\<lambda>IdL_a.
              andthen (py_index (IdR H) (int j + 1)) (\<lambda>IdR_c.
              andthen (channel (wL_dim (Ws ! i)) IdL_a) (\<lambda>a.
              andthen (channel (wR_dim (Ws ! j)) IdR_c) (\<lambda>c.
                let Hb = tensordot_wR_wL npc (Ws ! i ! a) (map (\<lambda>row. row ! c) (Ws ! j));
                    Ws1 = Ws[i := zero_row npc (Ws ! i) a];
                    Ws2 = Ws1[j := zero_column npc (Ws1 ! j) c]
                in Inr (Ws2, H_bond[j := Some Hb]))))))))"

definition merge_onsite_body ::
  "'t npc \<Rightarrow> 't MPO \<Rightarrow> 't option list \<Rightarrow> 't option list \<Rightarrow> nat \<Rightarrow> 't option list" where
  \<comment> \<open>the body of the loop that merges the onsite terms into \<^verbatim>\<open>H_bond\<close>\<close>
  "merge_onsite_body npc H H_onsite H_bond j =
     (if mpo_finite H \<and> j = 0 then H_bond
      else
       (let L = length (mpo_sites H);
            sites = mpo_sites H;
            i = (j + L - 1) mod L;
            strength_i = (if mpo_finite H \<and> i = 0 then 1 else 1 / 2);
            strength_j = (if mpo_finite H \<and> j = L - 1 then 1 else 1 / 2);
            Hb = tadd npc (outer npc (site_Id (sites ! i))
                             (tscale npc strength_j (the (H_onsite ! j))))
                          (outer npc (tscale npc strength_i (the (H_onsite ! i)))
                             (site_Id (sites ! j)));
            Hb' = add_with_None_0 npc (H_bond ! j) (Some Hb)
        in H_bond[j := map_option (\<lambda>t. set_leg_labels npc t [''p0'', ''p0*'', ''p1'', ''p1*''])
                         Hb']))"

definition take_out_bonds ::
  "'t npc \<Rightarrow> 't MPO \<Rightarrow> error + ('t list list list \<times> 't option list \<times> 't option list)" where
  \<comment> \<open>the first two loops: what is left of the tensors, the onsite terms and the products
      across the bonds\<close>
  "take_out_bonds npc H =
     (let L = length (mpo_sites H)
      in andthen (mapM (\<lambda>i. py_index (mpo_Ws H) (int i)) [0..<L]) (\<lambda>Ws.
         andthen (foldM (take_out_onsite_body npc H) (Ws, replicate L None) [0..<L])
           (\<lambda>(Ws1, H_onsite).
         andthen (foldM (multiply_bond_body npc H) (Ws1, replicate L None) [0..<L])
           (\<lambda>(Ws2, H_bond).
         Inr (Ws2, H_onsite, H_bond)))))"

definition calc_H_bond_from_MPO :: "'t npc \<Rightarrow> 't mpo_model \<Rightarrow> real \<Rightarrow> error + 't option list" where
  "calc_H_bond_from_MPO npc self tol_zero =
     (let H = H_MPO self;
          L = length (mpo_sites H)
      in andthen (take_out_bonds npc H) (\<lambda>(Ws, H_onsite, H_bond0).
         if list_ex (\<lambda>W. norm_W npc W > tol_zero) Ws then Inl BondsDidNotCapture
         else
          (let H_bond = foldl (merge_onsite_body npc H H_onsite) H_bond0 [0..<L]
           in if mpo_finite H \<and> H_bond = [] then Inl IndexError
              else if mpo_finite H \<and> hd H_bond \<noteq> None then Inl AssertionError
              else (case attr_explicit_plus_hc self of
                      None \<Rightarrow> Inl AttributeError
                    | Some True \<Rightarrow> Inr (plus_hermitian_conjugate npc H_bond)
                    | Some False \<Rightarrow> Inr H_bond))))"

text \<open>
  Section 4.3 of the specification, for the weight with which the onsite term of a site
  goes onto an adjacent bond: full weight at the two open ends of a finite chain, half
  weight elsewhere.
\<close>

definition onsite_weight :: "bool \<Rightarrow> nat \<Rightarrow> nat \<Rightarrow> complex" where
  "onsite_weight is_finite L k = (if is_finite \<and> (k = 0 \<or> k = L - 1) then 1 else 1 / 2)"

text \<open>
  The bond tensor of the bond \<open>(i, j)\<close>, \<open>i = j - 1\<close>, as the specification describes it:
  the product \<open>Hb\<close> across the bond plus the onsite terms of the two sites, each with its
  weight.
\<close>

definition redistributed_bond :: "'t npc \<Rightarrow> 't MPO \<Rightarrow> 't option list \<Rightarrow> nat \<Rightarrow> 't \<Rightarrow> 't" where
  "redistributed_bond npc H H_onsite j Hb =
     (let L = length (mpo_sites H);
          i = (j + L - 1) mod L
      in set_leg_labels npc
           (tadd npc Hb
              (tadd npc
                 (outer npc (site_Id (mpo_sites H ! i))
                    (tscale npc (onsite_weight (mpo_finite H) L j) (the (H_onsite ! j))))
                 (outer npc (tscale npc (onsite_weight (mpo_finite H) L i) (the (H_onsite ! i)))
                    (site_Id (mpo_sites H ! j)))))
           [''p0'', ''p0*'', ''p1'', ''p1*''])"

section \<open>NearestNeighborModel: grouping sites\<close>

text \<open>
  A \<^verbatim>\<open>GroupedSite\<close> of \<^verbatim>\<open>tenpy.networks.site\<close>: the sites it groups, their number, its
  identity and its leg. \<^verbatim>\<open>NearestNeighborModel.group_sites\<close> gets the list of grouped
  sites from \<^verbatim>\<open>Model.group_sites\<close> and computes the new \<^verbatim>\<open>H_bond\<close> from the old one.
\<close>

record 't grouped_site =
  gs_sites :: "'t site list"
  gs_n_sites :: nat
  gs_Id :: "'t"
  gs_leg :: leg

definition bond_labels :: "string list" where
  "bond_labels = [''p0'', ''p0*'', ''p1'', ''p1*'']"

definition group_sites_Hb_to_onsite :: "'t npc \<Rightarrow> 't grouped_site \<Rightarrow> nat \<Rightarrow> 't option \<Rightarrow> 't option" where
  "group_sites_Hb_to_onsite npc gr_site j old_Hb =
     (case old_Hb of
        None \<Rightarrow> None
      | Some t \<Rightarrow>
         (let old = transpose_legs npc t bond_labels;
              ops = map site_Id (take (j - 1) (gs_sites gr_site)) @ [old]
                      @ map site_Id (drop (j + 1) (gs_sites gr_site));
              Hb = foldl (outer npc) (hd ops) (tl ops);
              n = gs_n_sites gr_site;
              combine = [map (\<lambda>k. 2 * k) [0..<n], map (\<lambda>k. 2 * k + 1) [0..<n]];
              pipe = gs_leg gr_site
          in Some (combine_legs npc Hb combine [pipe, leg_conj pipe])))"

definition group_sites_Hb_to_bond ::
  "'t npc \<Rightarrow> 't grouped_site \<Rightarrow> 't grouped_site \<Rightarrow> 't option \<Rightarrow> 't option" where
  "group_sites_Hb_to_bond npc gr_site_L gr_site_R old_Hb =
     (case old_Hb of
        None \<Rightarrow> None
      | Some t \<Rightarrow>
         (let old = transpose_legs npc t bond_labels;
              ops = map site_Id (butlast (gs_sites gr_site_L)) @ [old]
                      @ map site_Id (drop 1 (gs_sites gr_site_R));
              Hb = foldl (outer npc) (hd ops) (tl ops);
              NL = gs_n_sites gr_site_L;
              NR = gs_n_sites gr_site_R;
              pipeL = gs_leg gr_site_L;
              pipeR = gs_leg gr_site_R;
              combine = [map (\<lambda>k. 2 * k) [0..<NL], map (\<lambda>k. 2 * k + 1) [0..<NL],
                         map (\<lambda>k. 2 * NL + 2 * k) [0..<NR],
                         map (\<lambda>k. 2 * NL + 1 + 2 * k) [0..<NR]]
          in Some (combine_legs npc Hb combine [pipeL, leg_conj pipeL, pipeR, leg_conj pipeR])))"

definition collect_onsite :: "'t npc \<Rightarrow> 't option list \<Rightarrow> 't grouped_site \<Rightarrow> nat \<Rightarrow> 't option" where
  \<comment> \<open>the inner loop: the old bond terms inside the group that starts at the old index \<open>i\<close>\<close>
  "collect_onsite npc old_H gs i =
     foldl (\<lambda>new_H_onsite j.
              add_with_None_0 npc new_H_onsite
                (group_sites_Hb_to_onsite npc gs j (old_H ! ((i + j) mod length old_H))))
       None [1..<gs_n_sites gs]"

definition bond_to_next :: "'t npc \<Rightarrow> 't option list \<Rightarrow> 't grouped_site list \<Rightarrow> nat \<Rightarrow> nat \<Rightarrow> 't option" where
  \<comment> \<open>\<^verbatim>\<open>new_Hb\<close> of the group \<open>k\<close> that starts at the old index \<open>i\<close>, before the onsite part\<close>
  "bond_to_next npc old_H gss k i =
     group_sites_Hb_to_bond npc (gss ! k) (gss ! ((k + 1) mod length gss))
       (old_H ! ((i + gs_n_sites (gss ! k)) mod length old_H))"

definition group_sites_body ::
  "'t npc \<Rightarrow> 't option list \<Rightarrow> 't grouped_site list \<Rightarrow> bool \<Rightarrow> nat \<times> 't option list
     \<Rightarrow> nat \<times> 't grouped_site \<Rightarrow> nat \<times> 't option list" where
  \<comment> \<open>the body of the loop \<^verbatim>\<open>for k, gs in enumerate(grouped_sites)\<close>\<close>
  "group_sites_body npc old_H gss is_finite st kgs =
     (case st of (i, H_bond) \<Rightarrow>
      case kgs of (k, gs) \<Rightarrow>
        (let new_L = length gss;
             k2 = (k + 1) mod new_L;
             next_gs = gss ! k2;
             new_H_onsite = collect_onsite npc old_H gs i;
             new_Hb = bond_to_next npc old_H gss k i;
             (new_Hb', H_bond1) =
               (case new_H_onsite of
                  None \<Rightarrow> (new_Hb, H_bond)
                | Some h \<Rightarrow>
                   (if k + 1 \<noteq> new_L \<or> \<not> is_finite
                    then (add_with_None_0 npc new_Hb
                            (Some (outer npc h (transpose_legs npc (gs_Id next_gs) [''p'', ''p*'']))),
                          H_bond)
                    else
                     (let prev_gs = gss ! ((k + new_L - 1) mod new_L)
                      in (new_Hb,
                          H_bond[new_L - 1 :=
                            add_with_None_0 npc (H_bond ! (new_L - 1))
                              (Some (outer npc (transpose_legs npc (gs_Id prev_gs) [''p'', ''p*''])
                                       h))]))))
         in (i + gs_n_sites gs, H_bond1[k2 := add_with_None_0 npc (H_bond1 ! k2) new_Hb'])))"

definition relabel_bond :: "'t npc \<Rightarrow> 't option \<Rightarrow> 't option" where
  \<comment> \<open>\<^verbatim>\<open>Hb.iset_leg_labels(['p0', 'p0*', 'p1', 'p1*']).itranspose(['p0', 'p1', 'p0*', 'p1*'])\<close>\<close>
  "relabel_bond npc Hb =
     (case Hb of
        None \<Rightarrow> None
      | Some t \<Rightarrow> Some (transpose_legs npc (set_leg_labels npc t bond_labels)
                          [''p0'', ''p1'', ''p0*'', ''p1*'']))"

definition nn_group_sites ::
  "'t npc \<Rightarrow> 't option list \<Rightarrow> 't grouped_site list \<Rightarrow> error + 't option list" where
  \<comment> \<open>the new \<^verbatim>\<open>self.H_bond\<close>, from the old one and the grouped sites\<close>
  "nn_group_sites npc old_H gss =
     (if old_H = [] then Inl IndexError
      else
       (let new_L = length gss;
            is_finite = (hd old_H = None);
            (i, H_bond) = foldl (group_sites_body npc old_H gss is_finite)
                            (0, replicate new_L None) (enumerate 0 gss)
        in Inr (map (relabel_bond npc) H_bond)))"

text \<open>
  Section 4.5 of the specification, for the bond \<open>m\<close> between the groups \<open>m - 1\<close> and \<open>m\<close>:
  the old bond between the two groups, plus the onsite part of the group \<open>m - 1\<close> tensored
  with the identity of the group \<open>m\<close>; in a finite chain the bond 0 has no onsite part and
  the right-most bond also takes the onsite part of the last group, tensored with the
  identity of the group left of it. The group \<open>k\<close> starts at the old index \<open>group_start k\<close>.
\<close>

definition group_start :: "'t grouped_site list \<Rightarrow> nat \<Rightarrow> nat" where
  "group_start gss k = sum_list (map gs_n_sites (take k gss))"

definition bulk_bond :: "'t npc \<Rightarrow> 't option list \<Rightarrow> 't grouped_site list \<Rightarrow> nat \<Rightarrow> 't option" where
  \<comment> \<open>the bond right of the group \<open>k\<close>, with the onsite part of the group \<open>k\<close>\<close>
  "bulk_bond npc old_H gss k =
     (case collect_onsite npc old_H (gss ! k) (group_start gss k) of
        None \<Rightarrow> bond_to_next npc old_H gss k (group_start gss k)
      | Some h \<Rightarrow>
          add_with_None_0 npc (bond_to_next npc old_H gss k (group_start gss k))
            (Some (outer npc h
                     (transpose_legs npc (gs_Id (gss ! ((k + 1) mod length gss))) [''p'', ''p*'']))))"

definition grouped_bond :: "'t npc \<Rightarrow> 't option list \<Rightarrow> 't grouped_site list \<Rightarrow> nat \<Rightarrow> 't option" where
  "grouped_bond npc old_H gss m =
     (let new_L = length gss;
          is_finite = (hd old_H = None);
          last = new_L - 1
      in if is_finite \<and> m = 0 then bond_to_next npc old_H gss last (group_start gss last)
         else if is_finite \<and> m = last
         then (case collect_onsite npc old_H (gss ! last) (group_start gss last) of
                 None \<Rightarrow> bulk_bond npc old_H gss (last - 1)
               | Some h \<Rightarrow>
                   add_with_None_0 npc (bulk_bond npc old_H gss (last - 1))
                     (Some (outer npc (transpose_legs npc (gs_Id (gss ! (last - 1))) [''p'', ''p*''])
                              h)))
         else bulk_bond npc old_H gss ((m + new_L - 1) mod new_L))"

section \<open>A concrete chain\<close>

text \<open>
  Collaborators to run the model on: a spin-1/2 site and a spinless fermion site with
  their operators as \<open>2 \<times> 2\<close> matrices in row-major order, an open chain of \<open>L\<close> equal
  sites, and a \<^verbatim>\<open>to_array\<close> that broadcasts a scalar and accepts an array of the
  required shape.
\<close>

definition spin_half_site :: "complex list site" where
  "spin_half_site =
     \<lparr> valid_opname = (\<lambda>n. n \<in> set [''Id'', ''JW'', ''Sz'', ''Sp'', ''Sm'']),
       op_needs_JW = (\<lambda>n. False),
       get_hc_op_name = (\<lambda>n. if n = ''Sp'' then ''Sm'' else if n = ''Sm'' then ''Sp'' else n),
       multiply_op_names = join_space,
       get_op = (\<lambda>n. if n = ''Sz'' then [1/2, 0, 0, -1/2]
                      else if n = ''Sp'' then [0, 1, 0, 0]
                      else if n = ''Sm'' then [0, 0, 1, 0]
                      else [1, 0, 0, 1]),
       site_Id = [1, 0, 0, 1],
       site_dim = 2 \<rparr>"

definition fermion_site :: "complex list site" where
  "fermion_site =
     \<lparr> valid_opname = (\<lambda>n. n \<in> set [''Id'', ''JW'', ''C'', ''Cd'', ''N'']),
       op_needs_JW = (\<lambda>n. n = ''C'' \<or> n = ''Cd''),
       get_hc_op_name = (\<lambda>n. if n = ''C'' then ''Cd'' else if n = ''Cd'' then ''C'' else n),
       multiply_op_names = join_space,
       get_op = (\<lambda>n. if n = ''JW'' then [1, 0, 0, -1]
                      else if n = ''C'' then [0, 1, 0, 0]
                      else if n = ''Cd'' then [0, 0, 1, 0]
                      else if n = ''N'' then [0, 0, 0, 1]
                      else [1, 0, 0, 1]),
       site_Id = [1, 0, 0, 1],
       site_dim = 2 \<rparr>"

definition chain :: "nat \<Rightarrow> 't site \<Rightarrow> 't lattice" where
  "chain L s =
     \<lparr> N_sites = L,
       lat_dim = 1,
       Ls = [L],
       unit_cell = [s],
       bc_MPS = ''finite'',
       order_u = replicate L 0,
       mps_sites = replicate L s,
       mps_lat_idx_fix_u = (\<lambda>u. map (\<lambda>x. (int x, [x])) [0..<L]),
       possible_couplings = (\<lambda>u1 u2 dx.
          let d = hd dx; n = L - nat \<bar>d\<bar>
          in (map (\<lambda>k. if 0 \<le> d then (int k, int k + d, [k]) else (int k - d, int k, [k])) [0..<n],
              [n])),
       possible_multi_couplings = (\<lambda>ops. ([], [L])) \<rparr>"

definition chain_tools :: "'t tools" where
  "chain_tools =
     \<lparr> to_array = (\<lambda>a shp.
          if shape a = shp then Some a
          else if shape a = [] \<and> length (flat a) = 1
          then Some (NDArray (dtype a) shp (replicate (prod_list shp) (hd (flat a))))
          else None),
       order_combine_term = (\<lambda>term sites. Some (term, 1)),
       multi_coupling_term_handle_JW = (\<lambda>s term sites op_string.
          Some (s, map snd term, map fst term,
               replicate (length term - 1) (case op_string of None \<Rightarrow> ''Id'' | Some x \<Rightarrow> x))) \<rparr>"

text \<open>
  Tensors over sites of dimension 2, as the list of their entries in row-major order of
  the legs \<open>p0, p0*, p1, p1*\<close>. The Hermitian conjugate of a two-site tensor exchanges
  \<open>p0\<close> with \<open>p0*\<close> and \<open>p1\<close> with \<open>p1*\<close> and conjugates the entries; leg labels are not
  represented.
\<close>

definition hconj_index :: "nat \<Rightarrow> nat" where
  "hconj_index k = ((k div 4) mod 2) * 8 + (k div 8) * 4 + (k mod 2) * 2 + (k div 2) mod 2"

definition flat_npc :: "complex list npc" where
  "flat_npc =
     \<lparr> outer = (\<lambda>a b. concat (map (\<lambda>x. map (\<lambda>y. x * y) b) a)),
       tadd = (\<lambda>a b. map (\<lambda>(x, y). x + y) (zip a b)),
       tscale = (\<lambda>c a. map (\<lambda>x. c * x) a),
       hconj = (\<lambda>a. map (\<lambda>k. cnj (a ! hconj_index k))
                        [0, 1, 2, 3, 4, 5, 6, 7, 8, 9, 10, 11, 12, 13, 14, 15]),
       tnorm = (\<lambda>a. sqrt (\<Sum>x\<leftarrow>a. (cmod x)\<^sup>2)),
       tensordot_wR_wL = (\<lambda>row col.
          foldl (\<lambda>acc (x, y). map (\<lambda>(u, v). u + v)
                                 (zip acc (concat (map (\<lambda>p. map (\<lambda>q. p * q) y) x))))
            [0, 0, 0, 0, 0, 0, 0, 0, 0, 0, 0, 0, 0, 0, 0, 0] (zip row col)),
       norm_W = (\<lambda>W. sqrt (\<Sum>x\<leftarrow>concat (concat W). (cmod x)\<^sup>2)),
       set_leg_labels = (\<lambda>a labels. a),
       transpose_legs = (\<lambda>a labels. a),
       combine_legs = (\<lambda>a groups pipes. a) \<rparr>"

text \<open>
  Tensors as expressions: every operation of \<open>npc\<close> builds the expression it computes,
  a product with the number 0 is the zero tensor, and the norm tells the zero tensor
  from the others.
\<close>

datatype sym =
    Op string
  | Zero
  | Outer sym sym
  | Plus sym sym
  | Times complex sym
  | Dagger sym
  | Dot "sym list" "sym list"
  | Labels sym "string list"
  | Transposed sym "string list"
  | Combined sym "nat list list" "leg list"

definition sym_npc :: "sym npc" where
  "sym_npc =
     \<lparr> outer = Outer,
       tadd = Plus,
       tscale = (\<lambda>c t. if c = 0 then Zero else if c = 1 then t else Times c t),
       hconj = Dagger,
       tnorm = (\<lambda>t. if t = Zero then 0 else 1),
       tensordot_wR_wL = Dot,
       norm_W = (\<lambda>W. if list_all (list_all (\<lambda>t. t = Zero)) W then 0 else 1),
       set_leg_labels = Labels,
       transpose_legs = Transposed,
       combine_legs = Combined \<rparr>"

definition sym_site :: "sym site" where
  "sym_site =
     \<lparr> valid_opname = (\<lambda>n. True),
       op_needs_JW = (\<lambda>n. False),
       get_hc_op_name = (\<lambda>n. n),
       multiply_op_names = join_space,
       get_op = Op,
       site_Id = Op ''Id'',
       site_dim = 2 \<rparr>"

text \<open>
  An MPO on three sites with finite boundary conditions and bond dimension 3, channel 0
  for \<^verbatim>\<open>IdL\<close> and channel \<open>-1\<close> for \<^verbatim>\<open>IdR\<close>: the onsite terms \<open>h0\<close>, \<open>h1\<close>, \<open>h2\<close> and the
  couplings \<open>A0 B1\<close> and \<open>A1 B2\<close> of nearest neighbours.
\<close>

definition nn_W :: "sym \<Rightarrow> sym \<Rightarrow> sym \<Rightarrow> sym list list" where
  "nn_W a b h = [[Op ''Id'', a, h],
                 [Zero, Zero, b],
                 [Zero, Zero, Op ''Id'']]"

definition nn_mpo_model :: "sym mpo_model" where
  "nn_mpo_model =
     \<lparr> H_MPO = \<lparr> mpo_sites = [sym_site, sym_site, sym_site],
                 mpo_Ws = [nn_W (Op ''A0'') Zero (Op ''h0''),
                           nn_W (Op ''A1'') (Op ''B1'') (Op ''h1''),
                           nn_W Zero (Op ''B2'') (Op ''h2'')],
                 mpo_finite = True,
                 IdL = [Some 0, Some 0, Some 0, Some 0],
                 IdR = [Some (- 1), Some (- 1), Some (- 1), Some (- 1)] \<rparr>,
       attr_explicit_plus_hc = Some False \<rparr>"

text \<open>
  An MPO on three spin-1/2 sites with the single term \<open>X\<^sub>0 P\<^sub>1 X\<^sub>2\<close> of range 3, where
  \<open>P\<close> has the one nonzero entry \<open>10\<^sup>-\<^sup>1\<^sup>6\<close>: channel 1 carries the term from site 0 over
  site 1 to site 2.
\<close>

definition Id2 :: "complex list" where "Id2 = [1, 0, 0, 1]"
definition X2 :: "complex list" where "X2 = [0, 1, 1, 0]"
definition Z2 :: "complex list" where "Z2 = [0, 0, 0, 0]"
definition P2 :: "complex list" where "P2 = [1 / 10 ^ 16, 0, 0, 0]"

definition Z4 :: "complex list" where
  "Z4 = [0, 0, 0, 0, 0, 0, 0, 0, 0, 0, 0, 0, 0, 0, 0, 0]"

definition long_range_mpo_model :: "complex list mpo_model" where
  "long_range_mpo_model =
     \<lparr> H_MPO = \<lparr> mpo_sites = [spin_half_site, spin_half_site, spin_half_site],
                 mpo_Ws = [[[Id2, X2, Z2], [Z2, Z2, Z2], [Z2, Z2, Id2]],
                           [[Id2, Z2, Z2], [Z2, P2, Z2], [Z2, Z2, Id2]],
                           [[Id2, Z2, Z2], [Z2, Z2, X2], [Z2, Z2, Id2]]],
                 mpo_finite = True,
                 IdL = [Some 0, Some 0, Some 0, Some 0],
                 IdR = [Some (- 1), Some (- 1), Some (- 1), Some (- 1)] \<rparr>,
       attr_explicit_plus_hc = Some False \<rparr>"

definition long_range_leftover :: "complex list list list list" where
  "long_range_leftover =
     [[[Z2, Z2, Z2], [Z2, Z2, Z2], [Z2, Z2, Z2]],
      [[Z2, Z2, Z2], [Z2, P2, Z2], [Z2, Z2, Z2]],
      [[Z2, Z2, Z2], [Z2, Z2, Z2], [Z2, Z2, Z2]]]"

definition default_tol_zero :: real where
  \<comment> \<open>the default \<^verbatim>\<open>tol_zero=1.e-15\<close> of the compiling methods\<close>
  "default_tol_zero = 1 / 10 ^ 15"

definition scalar :: "complex \<Rightarrow> ndarray" where
  \<comment> \<open>a Python \<^verbatim>\<open>float\<close> or \<^verbatim>\<open>complex\<close> as an array\<close>
  "scalar c = NDArray complex128 [] [c]"

definition empty_model :: "'t lattice \<Rightarrow> bool \<Rightarrow> 't model" where
  \<comment> \<open>the state after \<^verbatim>\<open>CouplingModel.__init__(lattice, explicit_plus_hc=...)\<close>\<close>
  "empty_model l e = \<lparr> lat = l, onsite_terms = [], coupling_terms = [], explicit_plus_hc = e \<rparr>"



section \<open>What a call stores, in the words of the specification\<close>

text \<open>
  The net coefficient a collection holds for a term; a term that is absent has
  coefficient 0.
\<close>

definition coeff :: "'k coeffs \<Rightarrow> 'k \<Rightarrow> complex" where
  "coeff ts k = (case map_of ts k of None \<Rightarrow> 0 | Some s \<Rightarrow> s)"

text \<open>
  Section 4.2 of the specification: the smaller MPS index is "left"; if a swap was
  required and the connecting string is the fermionic-sign string, the strength is
  negated. The result names the left index, the right index, the strength, the left and
  the right operator, and the site of the left operator.
\<close>

definition canonical_coupling ::
  "int \<Rightarrow> int \<Rightarrow> complex \<Rightarrow> opname \<Rightarrow> opname \<Rightarrow> 't site \<Rightarrow> 't site \<Rightarrow> opname
     \<Rightarrow> int \<times> int \<times> complex \<times> opname \<times> opname \<times> 't site" where
  "canonical_coupling i j s op1 op2 site1 site2 op_string =
     (if i \<le> j then (i, j, s, op1, op2, site1)
      else if op_string = ''JW'' then (j, i, - s, op2, op1, site2)
      else (j, i, s, op2, op1, site2))"

text \<open>
  What one pair \<open>(i, j)\<close> of the lattice with strength \<open>s\<close> adds to the coefficient of the
  term \<open>k\<close>: the canonical strength if \<open>k\<close> is the pair's canonical term (whose left
  operator carries the string when \<^verbatim>\<open>str_on_first\<close> is set), and nothing otherwise.
\<close>

definition pair_contribution ::
  "ndarray \<Rightarrow> opname \<Rightarrow> opname \<Rightarrow> 't site \<Rightarrow> 't site \<Rightarrow> opname \<Rightarrow> bool
     \<Rightarrow> coupling_key \<Rightarrow> int \<times> int \<times> nat list \<Rightarrow> complex" where
  "pair_contribution strength op1 op2 site1 site2 op_string str_on_first k p =
     (case p of (i, j, lat_idx) \<Rightarrow>
        (case np_get strength lat_idx of
           Inl e \<Rightarrow> 0
         | Inr s \<Rightarrow>
            (case canonical_coupling i j s op1 op2 site1 site2 op_string of
               (il, jr, s', opl, opr, site_l) \<Rightarrow>
                 (if k = (il, jr,
                          (if str_on_first \<and> op_string \<noteq> ''Id''
                           then multiply_op_names site_l [opl, op_string] else opl),
                          opr, op_string)
                  then s' else 0))))"

text \<open>
  The pairs one pass of \<^verbatim>\<open>add_coupling\<close> gets to store: all of them, unless
  \<^verbatim>\<open>raise_op2_left\<close> is set; then the pass ends with the error "Op2 is left" at the first
  pair of nonzero strength whose indices come out as \<open>j < i\<close>, and the pairs before it are
  the ones it stores. \<open>pass_sum\<close> is what the pass adds to the coefficient of the term \<open>k\<close>,
  \<open>pass_error\<close> the error it ends with.
\<close>

definition stored_pairs ::
  "bool \<Rightarrow> ndarray \<Rightarrow> (int \<times> int \<times> nat list) list \<Rightarrow> (int \<times> int \<times> nat list) list" where
  "stored_pairs raise_op2_left strength pairs =
     (if raise_op2_left
      then takeWhile (\<lambda>(i, j, lat_idx). \<not> (j < i \<and> np_get strength lat_idx \<noteq> Inr 0)) pairs
      else pairs)"

definition pass_sum ::
  "bool \<Rightarrow> ndarray \<Rightarrow> opname \<Rightarrow> opname \<Rightarrow> 't site \<Rightarrow> 't site \<Rightarrow> opname \<Rightarrow> bool
     \<Rightarrow> (int \<times> int \<times> nat list) list \<Rightarrow> coupling_key \<Rightarrow> complex" where
  "pass_sum raise_op2_left strength op1 op2 site1 site2 op_string str_on_first pairs k =
     (\<Sum>p\<leftarrow>stored_pairs raise_op2_left strength pairs.
        pair_contribution strength op1 op2 site1 site2 op_string str_on_first k p)"

definition pass_error :: "bool \<Rightarrow> ndarray \<Rightarrow> (int \<times> int \<times> nat list) list \<Rightarrow> error option" where
  "pass_error raise_op2_left strength pairs =
     (if stored_pairs raise_op2_left strength pairs = pairs then None else Some Op2Left)"

text \<open>
  What the lattice promises about the pairs of \<^verbatim>\<open>possible_couplings\<close>: every pair has
  an entry in the strength array, joins two different MPS sites, and its left site lies
  on the chain of length \<open>L\<close>.
\<close>

definition realizable :: "ndarray \<Rightarrow> nat \<Rightarrow> (int \<times> int \<times> nat list) list \<Rightarrow> bool" where
  "realizable strength L pairs =
     list_all (\<lambda>(i, j, lat_idx). np_get strength lat_idx \<noteq> Inl IndexError \<and> i \<noteq> j
                 \<and> 0 \<le> min i j \<and> min i j < int L) pairs"

text \<open>
  The same for \<^verbatim>\<open>add_onsite\<close>: what the loop over the sites \<open>idx\<close> of
  \<^verbatim>\<open>mps_lat_idx_fix_u\<close> adds to the coefficient of the term \<open>k\<close>, and the promise that
  every site has an entry in the strength array and lies on the chain.
\<close>

definition onsite_sum :: "ndarray \<Rightarrow> opname \<Rightarrow> (int \<times> nat list) list \<Rightarrow> onsite_key \<Rightarrow> complex" where
  "onsite_sum strength opname idx k =
     (\<Sum>(i, i_lat)\<leftarrow>idx. if k = (i, opname)
                          then (case np_get strength i_lat of Inl e \<Rightarrow> 0 | Inr s \<Rightarrow> s)
                          else 0)"

definition tiled_over :: "ndarray \<Rightarrow> nat \<Rightarrow> (int \<times> nat list) list \<Rightarrow> bool" where
  "tiled_over strength L idx =
     list_all (\<lambda>(i, i_lat). np_get strength i_lat \<noteq> Inl IndexError \<and> 0 \<le> i \<and> i < int L) idx"


definition net_coupling :: "'t model \<Rightarrow> string \<Rightarrow> coupling_key \<Rightarrow> complex" where
  "net_coupling m category k =
     (case map_of (coupling_terms m) category of None \<Rightarrow> 0 | Some ct \<Rightarrow> coeff (ct_terms ct) k)"


definition coupling_L :: "'t model \<Rightarrow> string \<Rightarrow> nat" where
  "coupling_L m category =
     (case map_of (coupling_terms m) category of None \<Rightarrow> N_sites (lat m) | Some ct \<Rightarrow> ct_L ct)"

text \<open>
  The entrywise image of an array: \<^verbatim>\<open>strength /= 2\<close> on a real or complex array and
  \<^verbatim>\<open>np.conj(strength)\<close> are of this form.
\<close>

definition np_map :: "(complex \<Rightarrow> complex) \<Rightarrow> ndarray \<Rightarrow> ndarray" where
  "np_map f a = NDArray (dtype a) (shape a) (map f (flat a))"

(*PROPERTIES*)

section \<open>Basic facts\<close>

lemma py_index_Inl: "py_index xs i = Inl e \<Longrightarrow> e = IndexError"
  by (auto simp: py_index_def split: if_splits)

lemma handle_explicit_plus_hc_array_Inl:
  "handle_explicit_plus_hc_array explicit plus_hc strength = Inl e \<Longrightarrow> e = TypeError"
  by (auto simp: handle_explicit_plus_hc_array_def np_halve_def split: if_splits)

lemma handle_explicit_plus_hc_array_no_hc:
  "handle_explicit_plus_hc_array explicit False strength = Inr (plus_hc, strength') \<Longrightarrow> \<not> plus_hc"
  by (auto simp: handle_explicit_plus_hc_array_def split: if_splits sum.splits)

lemma for_loop_error:
  assumes "for_loop body s xs = (s', Some e)"
    and "\<And>s x. body s x = Inl e \<Longrightarrow> P"
  shows P
  using assms
  by (induction xs arbitrary: s) (auto split: sum.splits)

lemma map_of_add_coeff:
  "map_of (add_coeff ts k s) k' =
     (if k' = k then Some (coeff ts k + s) else map_of ts k')"
  by (induction ts) (auto simp: coeff_def)

lemma coeff_add_coeff:
  "coeff (add_coeff ts k s) k' = coeff ts k' + (if k' = k then s else 0)"
  by (simp add: coeff_def map_of_add_coeff)

lemma map_of_dict_set: "map_of (dict_set d k v) k' = (if k' = k then Some v else map_of d k')"
  by (induction d) auto

lemma ct_terms_ct_set_terms [simp]: "ct_terms (ct_set_terms ct ts) = ts"
  by (cases ct) auto

lemma ct_L_ct_set_terms [simp]: "ct_L (ct_set_terms ct ts) = ct_L ct"
  by (cases ct) auto

lemma np_get_cases: "np_get a idx = Inl IndexError \<or> (\<exists>s. np_get a idx = Inr s)"
  by (auto simp: np_get_def split: option.splits)

lemma setdefault_present:
  "map_of d k = Some w \<Longrightarrow> setdefault d k v = (d, w)"
  by (simp add: setdefault_def)

lemma setdefault_dict_set [simp]:
  "setdefault (dict_set d k w) k v = (dict_set d k w, w)"
  by (simp add: setdefault_def map_of_dict_set)

lemma dict_set_dict_set [simp]: "dict_set (dict_set d k a) k b = dict_set d k b"
  by (induction d) auto

lemma all_zero_uminus:
  "list_all (\<lambda>x. x = 0) (map uminus dx) = list_all (\<lambda>x. x = (0::int)) dx"
  by (induction dx) auto

lemma np_any_nonzero_conj [simp]: "np_any_nonzero (np_conj a) = np_any_nonzero a"
  by (simp add: np_any_nonzero_def np_conj_def list_ex_iff)

lemma handle_explicit_plus_hc_array_hc:
  "handle_explicit_plus_hc_array explicit plus_hc0 strength1 = Inr (True, strength)
     \<Longrightarrow> \<not> explicit \<and> plus_hc0 \<and> strength = strength1"
  by (auto simp: handle_explicit_plus_hc_array_def split: if_splits sum.splits)


lemma sum_list_additive:
  assumes "f 0 = 0" "\<And>x y. f (x + y) = f x + f y"
  shows "(\<Sum>x\<leftarrow>xs. f (g x)) = f (\<Sum>x\<leftarrow>xs. g x)"
  by (induction xs) (simp_all add: assms)

lemma np_halve_np_map: "dtype a \<noteq> int64 \<Longrightarrow> np_halve a = Inr (np_map (\<lambda>x. x / 2) a)"
  by (simp add: np_halve_def np_map_def)


lemma np_get_np_map:
  "np_get (np_map f a) idx = (case np_get a idx of Inl e \<Rightarrow> Inl e | Inr s \<Rightarrow> Inr (f s))"
  by (simp add: np_get_def np_map_def split: option.splits)

lemma np_get_np_map_error:
  "(np_get (np_map f a) idx = Inl e) = (np_get a idx = Inl e)"
  by (simp add: np_get_np_map split: sum.splits)

lemma tiled_over_np_map [simp]: "tiled_over (np_map f a) L idx = tiled_over a L idx"
  by (simp add: tiled_over_def np_get_np_map_error)

lemma realizable_np_map [simp]: "realizable (np_map f a) L pairs = realizable a L pairs"
  by (simp add: realizable_def np_get_np_map_error)

lemma onsite_sum_np_map:
  assumes "f 0 = 0" "\<And>x y. f (x + y) = f x + f y"
  shows "onsite_sum (np_map f a) opname idx k = f (onsite_sum a opname idx k)"
proof -
  have "onsite_sum (np_map f a) opname idx k
          = (\<Sum>p\<leftarrow>idx. f (case p of (i, i_lat) \<Rightarrow>
                              if k = (i, opname)
                              then (case np_get a i_lat of Inl e \<Rightarrow> 0 | Inr s \<Rightarrow> s) else 0))"
    unfolding onsite_sum_def
    by (rule arg_cong [where f = sum_list], rule map_cong)
       (auto simp: np_get_np_map assms(1) split: sum.splits)
  then show ?thesis
    by (simp add: sum_list_additive [OF assms] onsite_sum_def)
qed

lemma stored_pairs_np_map:
  assumes "\<And>s. (f s = 0) = (s = 0)"
  shows "stored_pairs r (np_map f a) pairs = stored_pairs r a pairs"
proof -
  have "(np_get (np_map f a) idx = Inr 0) = (np_get a idx = Inr 0)" for idx
    by (simp add: np_get_np_map assms split: sum.splits)
  then show ?thesis by (simp add: stored_pairs_def)
qed

lemma pair_contribution_np_map:
  assumes "f 0 = 0" "\<And>s. f (- s) = - f s"
  shows "pair_contribution (np_map f a) op1 op2 site1 site2 op_string sof k p
           = f (pair_contribution a op1 op2 site1 site2 op_string sof k p)"
proof -
  obtain i j lat_idx where p: "p = (i, j, lat_idx)" by (cases p) auto
  show ?thesis
  proof (cases "np_get a lat_idx")
    case (Inl e)
    then show ?thesis by (simp add: pair_contribution_def np_get_np_map p assms(1))
  next
    case (Inr s)
    then show ?thesis
      by (cases "i \<le> j"; cases "op_string = ''JW''")
         (simp_all add: pair_contribution_def np_get_np_map p canonical_coupling_def assms)
  qed
qed

lemma pass_sum_np_map:
  assumes "f 0 = 0" "\<And>x y. f (x + y) = f x + f y" "\<And>s. f (- s) = - f s"
    "\<And>s. (f s = 0) = (s = 0)"
  shows "pass_sum r (np_map f a) op1 op2 site1 site2 op_string sof pairs k
           = f (pass_sum r a op1 op2 site1 site2 op_string sof pairs k)"
  by (simp add: pass_sum_def stored_pairs_np_map [of f, OF assms(4)]
        pair_contribution_np_map [of f, OF assms(1,3)] sum_list_additive [OF assms(1,2)])

lemma pass_error_np_map:
  assumes "\<And>s. (f s = 0) = (s = 0)"
  shows "pass_error r (np_map f a) pairs = pass_error r a pairs"
  by (simp add: pass_error_def stored_pairs_np_map [of f, OF assms])

lemma halved:
  "onsite_sum (np_map (\<lambda>x. x / 2) a) opname idx k = onsite_sum a opname idx k / 2"
  "pass_sum r (np_map (\<lambda>x. x / 2) a) op1 op2 site1 site2 op_string sof pairs kk
     = pass_sum r a op1 op2 site1 site2 op_string sof pairs kk / 2"
  "pass_error r (np_map (\<lambda>x. x / 2) a) pairs = pass_error r a pairs"
  by (simp_all add: onsite_sum_np_map pass_sum_np_map pass_error_np_map add_divide_distrib)


section \<open>Validation of fermionic strings\<close>

lemma add_coupling_body_errors:
  "add_coupling_body strength op1 op2 site1 site2 op_string sof r ct p = Inl e
     \<Longrightarrow> e = IndexError \<or> e = Op2Left \<or> e = TermError"
  by (auto simp: add_coupling_body_def np_get_def coupling_swap_def ct_add_coupling_term_def
        Let_def split: prod.splits sum.splits option.splits if_splits)

lemma add_coupling_loop_not_OnlyOneNeedsJW:
  "add_coupling_loop ct strength op1 op2 site1 site2 op_string sof r pairs
     \<noteq> (ct', Some OnlyOneNeedsJW)"
  unfolding add_coupling_loop_def
  by (auto elim!: for_loop_error dest: add_coupling_body_errors)

lemma add_coupling_given_string_no_plus_hc:
  "snd (add_coupling tools self strength u1 op1 u2 op2 dx (Some os) sof r c False)
     \<noteq> Some OnlyOneNeedsJW"
  by (subst add_coupling.simps)
     (auto simp: determine_op_string_def Let_def
        add_coupling_loop_not_OnlyOneNeedsJW
        split: sum.splits option.splits prod.splits if_splits
        dest: py_index_Inl handle_explicit_plus_hc_array_Inl handle_explicit_plus_hc_array_no_hc)

lemma add_coupling_given_string:
  "snd (add_coupling tools self strength u1 op1 u2 op2 dx (Some os) sof r c p)
     \<noteq> Some OnlyOneNeedsJW"
  by (subst add_coupling.simps)
     (auto simp: determine_op_string_def Let_def
        add_coupling_loop_not_OnlyOneNeedsJW add_coupling_given_string_no_plus_hc
        split: sum.splits option.splits prod.splits if_splits dest: py_index_Inl handle_explicit_plus_hc_array_Inl)

lemma add_coupling_unpaired:
  assumes "np_any_nonzero strength" "length dx = lat_dim (lat self)"
    and "py_index (unit_cell (lat self)) u1 = Inr site1"
    and "py_index (unit_cell (lat self)) u2 = Inr site2"
    and "valid_opname site1 op1" "valid_opname site2 op2"
    and "op_needs_JW site1 op1 \<noteq> op_needs_JW site2 op2"
  shows "add_coupling tools self strength u1 op1 u2 op2 dx None sof r c p
           = (self, Some OnlyOneNeedsJW)"
  using assms
  by (subst add_coupling.simps) (auto simp: determine_op_string_def Let_def)

lemma add_coupling_OnlyOneNeedsJW_only_if:
  assumes "py_index (unit_cell (lat self)) u1 = Inr site1"
    and "py_index (unit_cell (lat self)) u2 = Inr site2"
    and "snd (add_coupling tools self strength u1 op1 u2 op2 dx None sof r c p)
           = Some OnlyOneNeedsJW"
  shows "op_needs_JW site1 op1 \<noteq> op_needs_JW site2 op2"
  using assms
  by (subst (asm) add_coupling.simps)
     (auto simp: determine_op_string_def Let_def
        add_coupling_loop_not_OnlyOneNeedsJW add_coupling_given_string
        split: sum.splits option.splits prod.splits if_splits dest: py_index_Inl handle_explicit_plus_hc_array_Inl)

lemma add_coupling_forces_JW:
  assumes "py_index (unit_cell (lat self)) u1 = Inr site1"
    and "py_index (unit_cell (lat self)) u2 = Inr site2"
    and "op_needs_JW site1 op1" "op_needs_JW site2 op2"
  shows "add_coupling tools self strength u1 op1 u2 op2 dx None sof r c p
          = add_coupling tools self strength u1 op1 u2 op2 dx (Some ''JW'') True r c p"
  using assms
  by (subst add_coupling.simps, subst (2) add_coupling.simps)
     (simp add: determine_op_string_def Let_def)

lemma add_multi_coupling_odd:
  assumes "np_any_nonzero strength"
    and "list_all (\<lambda>(op, dx, u). length dx = lat_dim (lat self)) ops"
    and "need_JW_of_ops (lat self) ops = Inr need_JW"
    and "odd (length (filter id need_JW))"
  shows "add_multi_coupling tools self strength ops os c p = (self, Some OddNumberJW)"
  using assms
  by (subst add_multi_coupling.simps)
     (simp add: Let_def list_all_iff case_prod_unfold odd_iff_mod_2_eq_one)

text \<open>
  Claim C4: for a strength that is not all zero, \<^verbatim>\<open>add_coupling\<close> with
  \<^verbatim>\<open>op_string=None\<close> and two valid operators raises the error "Only one of the operators
  needs a Jordan-Wigner string" exactly when one operator needs the string and the other
  does not, and leaves the model as it was; when both need it the call is the call with
  \<^verbatim>\<open>op_string='JW'\<close> and \<^verbatim>\<open>str_on_first=True\<close>. \<^verbatim>\<open>add_multi_coupling\<close> raises "odd
  number of operators which need 'JW' string" whenever the number of its operators that
  need the string is odd. (\<open>dx\<close> has the dimension of the lattice and the indices \<open>u\<close> point
  into the unit cell.)
\<close>

theorem unpaired_JW_validation:
  assumes "np_any_nonzero strength"
  shows "(length dx = lat_dim (lat self)
            \<and> py_index (unit_cell (lat self)) u1 = Inr site1
            \<and> py_index (unit_cell (lat self)) u2 = Inr site2
            \<and> valid_opname site1 op1 \<and> valid_opname site2 op2
          \<longrightarrow> ((snd (add_coupling tools self strength u1 op1 u2 op2 dx None sof r c p)
                   = Some OnlyOneNeedsJW)
                 = (op_needs_JW site1 op1 \<noteq> op_needs_JW site2 op2))
              \<and> (op_needs_JW site1 op1 \<noteq> op_needs_JW site2 op2
                 \<longrightarrow> fst (add_coupling tools self strength u1 op1 u2 op2 dx None sof r c p) = self)
              \<and> (op_needs_JW site1 op1 \<and> op_needs_JW site2 op2
                 \<longrightarrow> add_coupling tools self strength u1 op1 u2 op2 dx None sof r c p
                     = add_coupling tools self strength u1 op1 u2 op2 dx (Some ''JW'') True r c p))
       \<and> (list_all (\<lambda>(op, dx, u). length dx = lat_dim (lat self)) ops
            \<and> need_JW_of_ops (lat self) ops = Inr need_JW
            \<and> odd (length (filter id need_JW))
          \<longrightarrow> add_multi_coupling tools self strength ops os c p = (self, Some OddNumberJW))"
proof (intro conjI impI)
  assume h: "length dx = lat_dim (lat self)
            \<and> py_index (unit_cell (lat self)) u1 = Inr site1
            \<and> py_index (unit_cell (lat self)) u2 = Inr site2
            \<and> valid_opname site1 op1 \<and> valid_opname site2 op2"
  show "(snd (add_coupling tools self strength u1 op1 u2 op2 dx None sof r c p)
           = Some OnlyOneNeedsJW)
         = (op_needs_JW site1 op1 \<noteq> op_needs_JW site2 op2)"
    using add_coupling_unpaired [of strength dx self u1 site1 u2 site2 op1 op2 tools sof r c p]
      add_coupling_OnlyOneNeedsJW_only_if [of self u1 site1 u2 site2 tools strength op1 op2 dx sof r c p]
      assms h
    by auto
  show "fst (add_coupling tools self strength u1 op1 u2 op2 dx None sof r c p) = self"
    if "op_needs_JW site1 op1 \<noteq> op_needs_JW site2 op2"
    using add_coupling_unpaired [of strength dx self u1 site1 u2 site2 op1 op2 tools sof r c p]
      assms h that
    by auto
  show "add_coupling tools self strength u1 op1 u2 op2 dx None sof r c p
          = add_coupling tools self strength u1 op1 u2 op2 dx (Some ''JW'') True r c p"
    if "op_needs_JW site1 op1 \<and> op_needs_JW site2 op2"
    using add_coupling_forces_JW h that by blast
next
  assume "list_all (\<lambda>(op, dx, u). length dx = lat_dim (lat self)) ops
            \<and> need_JW_of_ops (lat self) ops = Inr need_JW
            \<and> odd (length (filter id need_JW))"
  then show "add_multi_coupling tools self strength ops os c p = (self, Some OddNumberJW)"
    using add_multi_coupling_odd assms by blast
qed

theorem unpaired_JW_validation_witness:
  "snd (add_coupling chain_tools (empty_model (chain 2 fermion_site) False) (scalar 1)
        0 ''Cd'' 0 ''N'' [1] None True False None False) = Some OnlyOneNeedsJW
   \<and> snd (add_coupling chain_tools (empty_model (chain 2 fermion_site) False) (scalar 1)
        0 ''N'' 0 ''N'' [1] None True False None False) \<noteq> Some OnlyOneNeedsJW
   \<and> add_coupling chain_tools (empty_model (chain 2 fermion_site) False) (scalar 1)
        0 ''Cd'' 0 ''C'' [1] None False False None False
     = add_coupling chain_tools (empty_model (chain 2 fermion_site) False) (scalar 1)
        0 ''Cd'' 0 ''C'' [1] (Some ''JW'') True False None False
   \<and> add_multi_coupling chain_tools (empty_model (chain 2 fermion_site) False) (scalar 1)
        [(''Cd'', [0], 0), (''N'', [1], 0), (''N'', [2], 0)] None None False
     = (empty_model (chain 2 fermion_site) False, Some OddNumberJW)"
proof -
  let ?M = "empty_model (chain 2 fermion_site) False"
  have nz: "np_any_nonzero (scalar 1)" by (simp add: scalar_def np_any_nonzero_def)
  have u: "py_index (unit_cell (lat ?M)) 0 = Inr fermion_site"
    by (simp add: empty_model_def chain_def py_index_def)
  have d: "length [1::int] = lat_dim (lat ?M)" by (simp add: empty_model_def chain_def)
  have nj: "need_JW_of_ops (lat ?M) [(''Cd'', [0], 0), (''N'', [1], 0), (''N'', [2], 0)]
              = Inr [True, False, False]"
    by (simp add: need_JW_of_ops_def empty_model_def chain_def py_index_def fermion_site_def)
  have v: "valid_opname fermion_site ''Cd''" "valid_opname fermion_site ''N''"
    "valid_opname fermion_site ''C''"
    "op_needs_JW fermion_site ''Cd''" "\<not> op_needs_JW fermion_site ''N''"
    "op_needs_JW fermion_site ''C''"
    by (simp_all add: fermion_site_def)
  have dl: "list_all (\<lambda>(op, dx, u). length dx = lat_dim (lat ?M))
              [(''Cd'', [0::int], 0::int), (''N'', [1], 0), (''N'', [2], 0)]"
    by (simp add: empty_model_def chain_def)
  show ?thesis
    using unpaired_JW_validation [OF nz, of "[1]" ?M 0 fermion_site 0 fermion_site "''Cd''" "''N''"
            chain_tools True False None False
            "[(''Cd'', [0], 0), (''N'', [1], 0), (''N'', [2], 0)]" "[True, False, False]" None]
      unpaired_JW_validation [OF nz, of "[1]" ?M 0 fermion_site 0 fermion_site "''N''" "''N''"
            chain_tools True False None False]
      unpaired_JW_validation [OF nz, of "[1]" ?M 0 fermion_site 0 fermion_site "''Cd''" "''C''"
            chain_tools False False None False]
      u d nj v dl
    by simp
qed


section \<open>Terms of zero strength\<close>

lemma add_onsite_zero:
  assumes "to_array tools strength (Ls (lat self)) = Some tiled" "\<not> np_any_nonzero tiled"
  shows "add_onsite tools self strength u opname c p = (self, None)"
  using assms by (subst add_onsite.simps) simp

lemma add_coupling_zero:
  assumes "\<not> np_any_nonzero strength" "length dx = lat_dim (lat self)"
  shows "add_coupling tools self strength u1 op1 u2 op2 dx os sof r c p = (self, None)"
  using assms by (subst add_coupling.simps) simp

lemma add_multi_coupling_zero:
  assumes "\<not> np_any_nonzero strength"
    and "list_all (\<lambda>(op, dx, u). length dx = lat_dim (lat self)) ops"
  shows "add_multi_coupling tools self strength ops os c p = (self, None)"
  using assms
  by (subst add_multi_coupling.simps) (simp add: Let_def list_all_iff case_prod_unfold)

text \<open>
  Claim C8 (zero-strength no-op): a call of \<^verbatim>\<open>add_onsite\<close>, \<^verbatim>\<open>add_coupling\<close> or
  \<^verbatim>\<open>add_multi_coupling\<close> whose strength is entirely zero returns without raising and
  leaves the model as it was, whatever the operator names and the offsets are: no
  operator name is looked at. \<^verbatim>\<open>add_onsite\<close> tests the strength after tiling it to
  the lattice, the other two before; the translation vectors have the dimension of the
  lattice.
\<close>

theorem zero_strength_is_no_op:
  "(to_array tools strength (Ls (lat self)) = Some tiled \<and> \<not> np_any_nonzero tiled
      \<longrightarrow> add_onsite tools self strength u opname c p = (self, None))
   \<and> (\<not> np_any_nonzero strength \<and> length dx = lat_dim (lat self)
      \<longrightarrow> add_coupling tools self strength u1 op1 u2 op2 dx os sof r c p = (self, None))
   \<and> (\<not> np_any_nonzero strength
        \<and> list_all (\<lambda>(op, dx, u). length dx = lat_dim (lat self)) ops
      \<longrightarrow> add_multi_coupling tools self strength ops mos c p = (self, None))"
  by (simp add: add_onsite_zero add_coupling_zero add_multi_coupling_zero)

theorem zero_strength_is_no_op_witness:
  "add_onsite chain_tools (empty_model (chain 2 fermion_site) False) (scalar 0) 0 ''Cd'' None True
     = (empty_model (chain 2 fermion_site) False, None)
   \<and> add_coupling chain_tools (empty_model (chain 2 fermion_site) False) (scalar 0)
        0 ''Bogus'' 0 ''Bogus'' [0] None True False None True
     = (empty_model (chain 2 fermion_site) False, None)
   \<and> add_multi_coupling chain_tools (empty_model (chain 2 fermion_site) False) (scalar 0)
        [(''Cd'', [0], 0), (''Bogus'', [0], 0), (''N'', [0], 0)] None None True
     = (empty_model (chain 2 fermion_site) False, None)"
  using zero_strength_is_no_op [of chain_tools "scalar 0" "empty_model (chain 2 fermion_site) False"
      "NDArray complex128 [2] [0, 0]" 0 "''Cd''" None True "[0]" 0 "''Bogus''" 0 "''Bogus''" None True False
      "[(''Cd'', [0], 0), (''Bogus'', [0], 0), (''N'', [0], 0)]" None]
  by (simp add: chain_tools_def scalar_def empty_model_def chain_def np_any_nonzero_def
        numeral_2_eq_2)

section \<open>One pass of \<^verbatim>\<open>add_onsite\<close> and of \<^verbatim>\<open>add_coupling\<close>\<close>

lemma add_coupling_body_canonical:
  assumes "np_get strength lat_idx = Inr s" "i \<noteq> j"
    and "0 \<le> min i j" "min i j < int (ct_L ct)"
    and "\<not> (r \<and> j < i \<and> s \<noteq> 0)"
  shows "\<exists>ct'. add_coupling_body strength op1 op2 site1 site2 op_string sof r ct (i, j, lat_idx)
                 = Inr ct'
           \<and> ct_L ct' = ct_L ct
           \<and> (\<forall>k. coeff (ct_terms ct') k = coeff (ct_terms ct) k
                  + pair_contribution strength op1 op2 site1 site2 op_string sof k (i, j, lat_idx))"
  using assms
  by (auto simp: add_coupling_body_def coupling_swap_def canonical_coupling_def
        pair_contribution_def ct_add_coupling_term_def coeff_add_coeff Let_def min_def
        split: if_splits)

lemma add_coupling_body_op2_left:
  assumes "np_get strength lat_idx = Inr s" "r" "j < i" "s \<noteq> 0"
  shows "add_coupling_body strength op1 op2 site1 site2 op_string sof r ct (i, j, lat_idx)
           = Inl Op2Left"
  using assms by (simp add: add_coupling_body_def coupling_swap_def Let_def)

lemma add_coupling_loop_canonical:
  assumes "realizable strength (ct_L ct) pairs"
  shows "\<exists>ct'. add_coupling_loop ct strength op1 op2 site1 site2 op_string sof r pairs
                  = (ct', pass_error r strength pairs)
           \<and> ct_L ct' = ct_L ct
           \<and> (\<forall>k. coeff (ct_terms ct') k = coeff (ct_terms ct) k
                  + pass_sum r strength op1 op2 site1 site2 op_string sof pairs k)"
  using assms
proof (induction pairs arbitrary: ct)
  case Nil
  then show ?case
    by (simp add: add_coupling_loop_def pass_error_def pass_sum_def stored_pairs_def)
next
  case (Cons p pairs)
  obtain i j lat_idx where p: "p = (i, j, lat_idx)" by (cases p) auto
  from Cons.prems obtain s where s: "np_get strength lat_idx = Inr s"
    and ij: "i \<noteq> j" "0 \<le> min i j" "min i j < int (ct_L ct)"
    and rest: "realizable strength (ct_L ct) pairs"
    using np_get_cases [of strength lat_idx] by (auto simp: p realizable_def)
  show ?case
  proof (cases "r \<and> j < i \<and> s \<noteq> 0")
    case True
    then have "add_coupling_loop ct strength op1 op2 site1 site2 op_string sof r (p # pairs)
                 = (ct, Some Op2Left)"
      using add_coupling_body_op2_left [OF s, of r j i op1 op2 site1 site2 op_string sof ct]
      by (simp add: add_coupling_loop_def p)
    moreover have "stored_pairs r strength (p # pairs) = []"
      using True s by (simp add: stored_pairs_def p)
    ultimately show ?thesis by (simp add: pass_error_def pass_sum_def)
  next
    case False
    from add_coupling_body_canonical [OF s ij False, of op1 op2 site1 site2 op_string sof]
    obtain ct1 where b: "add_coupling_body strength op1 op2 site1 site2 op_string sof r ct
                           (i, j, lat_idx) = Inr ct1"
      and L1: "ct_L ct1 = ct_L ct"
      and c1: "\<And>k. coeff (ct_terms ct1) k = coeff (ct_terms ct) k
                    + pair_contribution strength op1 op2 site1 site2 op_string sof k (i, j, lat_idx)"
      by blast
    from Cons.IH [of ct1] rest L1
    obtain ct' where l: "add_coupling_loop ct1 strength op1 op2 site1 site2 op_string sof r pairs
                           = (ct', pass_error r strength pairs)"
      and L': "ct_L ct' = ct_L ct1"
      and c': "\<And>k. coeff (ct_terms ct') k = coeff (ct_terms ct1) k
                    + pass_sum r strength op1 op2 site1 site2 op_string sof pairs k"
      by auto
    have sp: "stored_pairs r strength (p # pairs) = p # stored_pairs r strength pairs"
      using False s by (auto simp: stored_pairs_def p)
    have "add_coupling_loop ct strength op1 op2 site1 site2 op_string sof r (p # pairs)
            = (ct', pass_error r strength (p # pairs))"
      using b l by (simp add: add_coupling_loop_def p pass_error_def sp [unfolded p])
    moreover have "ct_L ct' = ct_L ct" using L' L1 by simp
    moreover have "\<forall>k. coeff (ct_terms ct') k = coeff (ct_terms ct) k
                    + pass_sum r strength op1 op2 site1 site2 op_string sof (p # pairs) k"
      by (simp add: c' c1 p pass_sum_def sp [unfolded p] add.assoc)
    ultimately show ?thesis by blast
  qed
qed

lemma add_coupling_pass:
  assumes nz: "np_any_nonzero strength0"
    and dx: "length dx = lat_dim (lat self)" "\<not> (list_all (\<lambda>x. x = 0) dx \<and> u1 = u2)"
    and s1: "py_index (unit_cell (lat self)) u1 = Inr site1" "valid_opname site1 op1"
    and s2: "py_index (unit_cell (lat self)) u2 = Inr site2" "valid_opname site2 op2"
    and os: "determine_op_string site1 op1 site2 op2 op_string0 str_on_first0
               = Inr (op_string, str_on_first)"
      "list_all (\<lambda>s. valid_opname s op_string) (unit_cell (lat self))"
      "op_string = ''JW'' \<longrightarrow> str_on_first"
    and pc: "possible_couplings (lat self) u1 u2 dx = (pairs, strength_shape)"
    and ta: "to_array tools strength0 strength_shape = Some strength1"
    and hc: "handle_explicit_plus_hc_array (explicit_plus_hc self) plus_hc0 strength1
               = Inr (plus_hc, strength)"
    and cat: "category = (case category0 of None \<Rightarrow> op1 @ ''_i '' @ op2 @ ''_j'' | Some c \<Rightarrow> c)"
    and sd: "setdefault (coupling_terms self) category (CouplingTerms (N_sites (lat self)) [])
               = (d, ct)"
    and ok: "realizable strength (ct_L ct) pairs"
  shows "\<exists>ct'. ct_L ct' = ct_L ct
           \<and> (\<forall>k. coeff (ct_terms ct') k = coeff (ct_terms ct) k
                  + pass_sum r strength op1 op2 site1 site2 op_string str_on_first pairs k)
           \<and> add_coupling tools self strength0 u1 op1 u2 op2 dx op_string0 str_on_first0 r
               category0 plus_hc0
             = (if pass_error r strength pairs \<noteq> None
                then (self\<lparr>coupling_terms := dict_set d category ct'\<rparr>, pass_error r strength pairs)
                else if plus_hc
                then add_coupling tools (self\<lparr>coupling_terms := dict_set d category ct'\<rparr>)
                       (np_conj strength) u2 (get_hc_op_name site2 op2) u1
                       (get_hc_op_name site1 op1) (map uminus dx)
                       (Some (get_hc_op_name site2 op_string)) str_on_first r (Some category) False
                else (self\<lparr>coupling_terms := dict_set d category ct'\<rparr>, None))"
proof -
  from add_coupling_loop_canonical [OF ok, of op1 op2 site1 site2 op_string str_on_first r]
  obtain ct' where l: "add_coupling_loop ct strength op1 op2 site1 site2 op_string str_on_first
                         r pairs = (ct', pass_error r strength pairs)"
    and L: "ct_L ct' = ct_L ct"
    and c: "\<forall>k. coeff (ct_terms ct') k = coeff (ct_terms ct) k
              + pass_sum r strength op1 op2 site1 site2 op_string str_on_first pairs k"
    by blast
  have "add_coupling tools self strength0 u1 op1 u2 op2 dx op_string0 str_on_first0 r
               category0 plus_hc0
             = (if pass_error r strength pairs \<noteq> None
                then (self\<lparr>coupling_terms := dict_set d category ct'\<rparr>, pass_error r strength pairs)
                else if plus_hc
                then add_coupling tools (self\<lparr>coupling_terms := dict_set d category ct'\<rparr>)
                       (np_conj strength) u2 (get_hc_op_name site2 op2) u1
                       (get_hc_op_name site1 op1) (map uminus dx)
                       (Some (get_hc_op_name site2 op_string)) str_on_first r (Some category) False
                else (self\<lparr>coupling_terms := dict_set d category ct'\<rparr>, None))"
    using nz dx s1 s2 os pc ta hc l sd [unfolded cat]
    by (subst add_coupling.simps) (auto simp: Let_def cat split: prod.splits)
  with L c show ?thesis by blast
qed

lemma add_coupling_halving_refused:
  assumes nz: "np_any_nonzero strength0"
    and dx: "length dx = lat_dim (lat self)" "\<not> (list_all (\<lambda>x. x = 0) dx \<and> u1 = u2)"
    and s1: "py_index (unit_cell (lat self)) u1 = Inr site1" "valid_opname site1 op1"
    and s2: "py_index (unit_cell (lat self)) u2 = Inr site2" "valid_opname site2 op2"
    and os: "determine_op_string site1 op1 site2 op2 op_string0 str_on_first0
               = Inr (op_string, str_on_first)"
      "list_all (\<lambda>s. valid_opname s op_string) (unit_cell (lat self))"
      "op_string = ''JW'' \<longrightarrow> str_on_first"
    and pc: "possible_couplings (lat self) u1 u2 dx = (pairs, strength_shape)"
    and ta: "to_array tools strength0 strength_shape = Some strength1"
    and hc: "handle_explicit_plus_hc_array (explicit_plus_hc self) plus_hc0 strength1 = Inl e"
  shows "add_coupling tools self strength0 u1 op1 u2 op2 dx op_string0 str_on_first0 r
           category0 plus_hc0 = (self, Some e)"
  using assms by (subst add_coupling.simps) (auto simp: Let_def)





lemma setdefault_coupling:
  "\<exists>d ct. setdefault (coupling_terms m) category (CouplingTerms (N_sites (lat m)) []) = (d, ct)
      \<and> ct_L ct = coupling_L m category
      \<and> (\<forall>k. coeff (ct_terms ct) k = net_coupling m category k)"
  by (simp add: setdefault_def coupling_L_def net_coupling_def coeff_def split: option.splits)

lemma add_coupling_net:
  assumes nz: "np_any_nonzero strength0"
    and dx: "length dx = lat_dim (lat self)" "\<not> (list_all (\<lambda>x. x = 0) dx \<and> u1 = u2)"
    and s1: "py_index (unit_cell (lat self)) u1 = Inr site1" "valid_opname site1 op1"
    and s2: "py_index (unit_cell (lat self)) u2 = Inr site2" "valid_opname site2 op2"
    and os: "determine_op_string site1 op1 site2 op2 op_string0 str_on_first0
               = Inr (op_string, str_on_first)"
      "list_all (\<lambda>s. valid_opname s op_string) (unit_cell (lat self))"
      "op_string = ''JW'' \<longrightarrow> str_on_first"
    and pc: "possible_couplings (lat self) u1 u2 dx = (pairs, strength_shape)"
    and ta: "to_array tools strength0 strength_shape = Some strength1"
    and hc: "handle_explicit_plus_hc_array (explicit_plus_hc self) plus_hc0 strength1
               = Inr (plus_hc, strength)"
    and cat: "category = (case category0 of None \<Rightarrow> op1 @ ''_i '' @ op2 @ ''_j'' | Some c \<Rightarrow> c)"
    and ok: "realizable strength (coupling_L self category) pairs"
    and R: "R = add_coupling tools self strength0 u1 op1 u2 op2 dx op_string0 str_on_first0 r
                  category0 plus_hc0"
  shows "(pass_error r strength pairs \<noteq> None \<or> \<not> plus_hc
            \<longrightarrow> snd R = pass_error r strength pairs
                \<and> (\<forall>k. net_coupling (fst R) category k = net_coupling self category k
                       + pass_sum r strength op1 op2 site1 site2 op_string str_on_first pairs k))
         \<and> (pass_error r strength pairs = None \<and> plus_hc
                \<and> np_any_nonzero strength
                \<and> valid_opname site2 (get_hc_op_name site2 op2)
                \<and> valid_opname site1 (get_hc_op_name site1 op1)
                \<and> list_all (\<lambda>s. valid_opname s (get_hc_op_name site2 op_string))
                     (unit_cell (lat self))
                \<and> (get_hc_op_name site2 op_string = ''JW'' \<longrightarrow> str_on_first)
                \<and> possible_couplings (lat self) u2 u1 (map uminus dx) = (pairs2, shape2)
                \<and> to_array tools (np_conj strength) shape2 = Some strength2
                \<and> realizable strength2 (coupling_L self category) pairs2
            \<longrightarrow> snd R = pass_error r strength2 pairs2
                \<and> (\<forall>k. net_coupling (fst R) category k = net_coupling self category k
                       + pass_sum r strength op1 op2 site1 site2 op_string str_on_first pairs k
                       + pass_sum r strength2 (get_hc_op_name site2 op2)
                           (get_hc_op_name site1 op1) site2 site1
                           (get_hc_op_name site2 op_string) str_on_first pairs2 k))"
proof -
  let ?hc1 = "get_hc_op_name site1 op1" and ?hc2 = "get_hc_op_name site2 op2"
    and ?hcs = "get_hc_op_name site2 op_string"
  from setdefault_coupling [of self category]
  obtain d ct where sd: "setdefault (coupling_terms self) category
                           (CouplingTerms (N_sites (lat self)) []) = (d, ct)"
    and L: "ct_L ct = coupling_L self category"
    and n: "\<And>k. coeff (ct_terms ct) k = net_coupling self category k"
    by blast
  have ok': "realizable strength (ct_L ct) pairs" using ok L by simp
  from add_coupling_pass [OF nz dx s1 s2 os pc ta hc cat sd ok', of r]
  obtain ct1 where L1: "ct_L ct1 = ct_L ct"
    and c1': "\<forall>k. coeff (ct_terms ct1) k = coeff (ct_terms ct) k
                + pass_sum r strength op1 op2 site1 site2 op_string str_on_first pairs k"
    and R1: "R = (if pass_error r strength pairs \<noteq> None
                then (self\<lparr>coupling_terms := dict_set d category ct1\<rparr>, pass_error r strength pairs)
                else if plus_hc
                then add_coupling tools (self\<lparr>coupling_terms := dict_set d category ct1\<rparr>)
                       (np_conj strength) u2 ?hc2 u1 ?hc1 (map uminus dx)
                       (Some ?hcs) str_on_first r (Some category) False
                else (self\<lparr>coupling_terms := dict_set d category ct1\<rparr>, None))"
    unfolding R by (elim exE conjE)
  note c1 = c1' [rule_format]
  let ?self2 = "self\<lparr>coupling_terms := dict_set d category ct1\<rparr>"
  have n1: "net_coupling ?self2 category k = net_coupling self category k
              + pass_sum r strength op1 op2 site1 site2 op_string str_on_first pairs k" for k
    by (simp add: net_coupling_def map_of_dict_set c1 n)
  have one: "snd R = pass_error r strength pairs
               \<and> (\<forall>k. net_coupling (fst R) category k = net_coupling self category k
                       + pass_sum r strength op1 op2 site1 site2 op_string str_on_first pairs k)"
    if "pass_error r strength pairs \<noteq> None \<or> \<not> plus_hc"
  proof -
    have "R = (?self2, pass_error r strength pairs)" using that R1 by auto
    then show ?thesis using n1 by simp
  qed
  have two: "snd R = pass_error r strength2 pairs2
               \<and> (\<forall>k. net_coupling (fst R) category k = net_coupling self category k
                       + pass_sum r strength op1 op2 site1 site2 op_string str_on_first pairs k
                       + pass_sum r strength2 ?hc2 ?hc1 site2 site1 ?hcs str_on_first pairs2 k)"
    if h: "pass_error r strength pairs = None" "plus_hc"
      "np_any_nonzero strength"
      "valid_opname site2 ?hc2" "valid_opname site1 ?hc1"
      "list_all (\<lambda>s. valid_opname s ?hcs) (unit_cell (lat self))"
      "?hcs = ''JW'' \<longrightarrow> str_on_first"
      "possible_couplings (lat self) u2 u1 (map uminus dx) = (pairs2, shape2)"
      "to_array tools (np_conj strength) shape2 = Some strength2"
      "realizable strength2 (coupling_L self category) pairs2"
  proof -
    have ne: "\<not> explicit_plus_hc self"
      using hc h(2) handle_explicit_plus_hc_array_hc [of "explicit_plus_hc self" plus_hc0 strength1 strength]
      by simp
    have R2: "R = add_coupling tools ?self2 (np_conj strength) u2 ?hc2 u1 ?hc1 (map uminus dx)
                    (Some ?hcs) str_on_first r (Some category) False"
      using R1 h(1,2) by simp
    have a: "np_any_nonzero (np_conj strength)" using h(3) by simp
    have b: "length (map uminus dx) = lat_dim (lat ?self2)"
      "\<not> (list_all (\<lambda>x. x = 0) (map uminus dx) \<and> u2 = u1)"
      using dx by (auto simp: all_zero_uminus)
    have c: "py_index (unit_cell (lat ?self2)) u2 = Inr site2" "valid_opname site2 ?hc2"
      "py_index (unit_cell (lat ?self2)) u1 = Inr site1" "valid_opname site1 ?hc1"
      using s1 s2 h by simp_all
    have e: "determine_op_string site2 ?hc2 site1 ?hc1 (Some ?hcs) str_on_first
               = Inr (?hcs, str_on_first)"
      "list_all (\<lambda>s. valid_opname s ?hcs) (unit_cell (lat ?self2))"
      "?hcs = ''JW'' \<longrightarrow> str_on_first"
      using h by (simp_all add: determine_op_string_def)
    have f: "possible_couplings (lat ?self2) u2 u1 (map uminus dx) = (pairs2, shape2)"
      using h by simp
    have g: "handle_explicit_plus_hc_array (explicit_plus_hc ?self2) False strength2
               = Inr (False, strength2)"
      using ne by (simp add: handle_explicit_plus_hc_array_def)
    have i: "category = (case Some category of None \<Rightarrow> ?hc2 @ ''_i '' @ ?hc1 @ ''_j'' | Some c \<Rightarrow> c)"
      by simp
    have j: "setdefault (coupling_terms ?self2) category (CouplingTerms (N_sites (lat ?self2)) [])
               = (dict_set d category ct1, ct1)"
      by simp
    have k: "realizable strength2 (ct_L ct1) pairs2" using h L1 L by simp
    from add_coupling_pass [OF a b c(1,2) c(3,4) e f h(9) g i j k, of r]
    obtain ct2 where c2': "\<forall>k. coeff (ct_terms ct2) k = coeff (ct_terms ct1) k
                + pass_sum r strength2 ?hc2 ?hc1 site2 site1 ?hcs str_on_first pairs2 k"
      and R3: "add_coupling tools ?self2 (np_conj strength) u2 ?hc2 u1 ?hc1 (map uminus dx)
                    (Some ?hcs) str_on_first r (Some category) False
               = (if pass_error r strength2 pairs2 \<noteq> None
                then (?self2\<lparr>coupling_terms := dict_set (dict_set d category ct1) category ct2\<rparr>,
                      pass_error r strength2 pairs2)
                else if False
                then add_coupling tools
                       (?self2\<lparr>coupling_terms := dict_set (dict_set d category ct1) category ct2\<rparr>)
                       (np_conj strength2) u1 (get_hc_op_name site1 ?hc1) u2
                       (get_hc_op_name site2 ?hc2) (map uminus (map uminus dx))
                       (Some (get_hc_op_name site1 ?hcs)) str_on_first r (Some category) False
                else (?self2\<lparr>coupling_terms := dict_set (dict_set d category ct1) category ct2\<rparr>,
                      None))"
      by (elim exE conjE)
    note c2 = c2' [rule_format]
    have "snd R = pass_error r strength2 pairs2"
      unfolding R2 R3 by simp
    moreover have "net_coupling (fst R) category k = net_coupling self category k
                       + pass_sum r strength op1 op2 site1 site2 op_string str_on_first pairs k
                       + pass_sum r strength2 ?hc2 ?hc1 site2 site1 ?hcs str_on_first pairs2 k" for k
      unfolding R2 R3 by (simp add: net_coupling_def map_of_dict_set c2 c1 n)
    ultimately show ?thesis by simp
  qed
  show ?thesis
    apply (intro conjI)
     apply (rule impI, erule one)
    apply (rule impI, elim conjE, rule two; assumption)
    done
qed


section \<open>The canonical order of the stored couplings\<close>

text \<open>
  Claim C3: \<^verbatim>\<open>add_coupling\<close> stores every pair of the lattice in canonical order. In
  a call that passes the validation, each pair \<open>(i, j)\<close> that the loop gets to adds its
  strength to the coefficient of its canonical term (\<open>pair_contribution\<close>, by
  \<open>canonical_coupling\<close>): for \<open>i < j\<close> the term with \<open>i\<close> and \<open>op1\<close> left; for \<open>j < i\<close> the
  term with \<open>j\<close> and \<open>op2\<close> left, with the strength negated exactly when the string is
  \<^verbatim>\<open>'JW'\<close>. This holds whatever \<^verbatim>\<open>raise_op2_left\<close>, \<^verbatim>\<open>plus_hc\<close> and
  \<^verbatim>\<open>explicit_plus_hc\<close> are. With \<^verbatim>\<open>raise_op2_left\<close> the call ends with "Op2 is left" at
  the first pair of nonzero strength with \<open>j < i\<close>, and only the pairs before it are stored.
  With \<^verbatim>\<open>plus_hc\<close> on a model without \<^verbatim>\<open>explicit_plus_hc\<close> the second pass, the call for
  the conjugate term with the two operators exchanged and \<open>dx\<close> negated, stores its pairs
  in the same way. The strength is the one the \<^verbatim>\<open>explicit_plus_hc\<close> block leaves; where
  that block refuses to halve an integer array, the call raises \<^verbatim>\<open>TypeError\<close> and stores
  nothing.
\<close>

theorem add_coupling_stores_canonical_order:
  assumes nz: "np_any_nonzero strength0"
    and dx: "length dx = lat_dim (lat self)" "\<not> (list_all (\<lambda>x. x = 0) dx \<and> u1 = u2)"
    and s1: "py_index (unit_cell (lat self)) u1 = Inr site1" "valid_opname site1 op1"
    and s2: "py_index (unit_cell (lat self)) u2 = Inr site2" "valid_opname site2 op2"
    and os: "determine_op_string site1 op1 site2 op2 op_string0 str_on_first0
               = Inr (op_string, str_on_first)"
      "list_all (\<lambda>s. valid_opname s op_string) (unit_cell (lat self))"
      "op_string = ''JW'' \<longrightarrow> str_on_first"
    and pc: "possible_couplings (lat self) u1 u2 dx = (pairs, strength_shape)"
    and ta: "to_array tools strength0 strength_shape = Some strength1"
    and cat: "category = (case category0 of None \<Rightarrow> op1 @ ''_i '' @ op2 @ ''_j'' | Some c \<Rightarrow> c)"
    and R: "R = add_coupling tools self strength0 u1 op1 u2 op2 dx op_string0 str_on_first0
                  raise_op2_left category0 plus_hc0"
  shows "(handle_explicit_plus_hc_array (explicit_plus_hc self) plus_hc0 strength1 = Inl TypeError
            \<longrightarrow> R = (self, Some TypeError))
         \<and> (handle_explicit_plus_hc_array (explicit_plus_hc self) plus_hc0 strength1
               = Inr (plus_hc, strength)
             \<and> realizable strength (coupling_L self category) pairs
            \<longrightarrow> (pass_error raise_op2_left strength pairs \<noteq> None \<or> \<not> plus_hc
                   \<longrightarrow> snd R = pass_error raise_op2_left strength pairs
                       \<and> (\<forall>k. net_coupling (fst R) category k = net_coupling self category k
                              + pass_sum raise_op2_left strength op1 op2 site1 site2 op_string
                                  str_on_first pairs k))
                \<and> (pass_error raise_op2_left strength pairs = None \<and> plus_hc
                     \<and> np_any_nonzero strength
                     \<and> valid_opname site2 (get_hc_op_name site2 op2)
                     \<and> valid_opname site1 (get_hc_op_name site1 op1)
                     \<and> list_all (\<lambda>s. valid_opname s (get_hc_op_name site2 op_string))
                          (unit_cell (lat self))
                     \<and> (get_hc_op_name site2 op_string = ''JW'' \<longrightarrow> str_on_first)
                     \<and> possible_couplings (lat self) u2 u1 (map uminus dx) = (pairs2, shape2)
                     \<and> to_array tools (np_conj strength) shape2 = Some strength2
                     \<and> realizable strength2 (coupling_L self category) pairs2
                   \<longrightarrow> snd R = pass_error raise_op2_left strength2 pairs2
                       \<and> (\<forall>k. net_coupling (fst R) category k = net_coupling self category k
                              + pass_sum raise_op2_left strength op1 op2 site1 site2 op_string
                                  str_on_first pairs k
                              + pass_sum raise_op2_left strength2 (get_hc_op_name site2 op2)
                                  (get_hc_op_name site1 op1) site2 site1
                                  (get_hc_op_name site2 op_string) str_on_first pairs2 k)))"
proof (intro conjI)
  show "handle_explicit_plus_hc_array (explicit_plus_hc self) plus_hc0 strength1 = Inl TypeError
          \<longrightarrow> R = (self, Some TypeError)"
    unfolding R using add_coupling_halving_refused [OF nz dx s1 s2 os pc ta] by blast
  show "handle_explicit_plus_hc_array (explicit_plus_hc self) plus_hc0 strength1
               = Inr (plus_hc, strength)
             \<and> realizable strength (coupling_L self category) pairs
            \<longrightarrow> (pass_error raise_op2_left strength pairs \<noteq> None \<or> \<not> plus_hc
                   \<longrightarrow> snd R = pass_error raise_op2_left strength pairs
                       \<and> (\<forall>k. net_coupling (fst R) category k = net_coupling self category k
                              + pass_sum raise_op2_left strength op1 op2 site1 site2 op_string
                                  str_on_first pairs k))
                \<and> (pass_error raise_op2_left strength pairs = None \<and> plus_hc
                     \<and> np_any_nonzero strength
                     \<and> valid_opname site2 (get_hc_op_name site2 op2)
                     \<and> valid_opname site1 (get_hc_op_name site1 op1)
                     \<and> list_all (\<lambda>s. valid_opname s (get_hc_op_name site2 op_string))
                          (unit_cell (lat self))
                     \<and> (get_hc_op_name site2 op_string = ''JW'' \<longrightarrow> str_on_first)
                     \<and> possible_couplings (lat self) u2 u1 (map uminus dx) = (pairs2, shape2)
                     \<and> to_array tools (np_conj strength) shape2 = Some strength2
                     \<and> realizable strength2 (coupling_L self category) pairs2
                   \<longrightarrow> snd R = pass_error raise_op2_left strength2 pairs2
                       \<and> (\<forall>k. net_coupling (fst R) category k = net_coupling self category k
                              + pass_sum raise_op2_left strength op1 op2 site1 site2 op_string
                                  str_on_first pairs k
                              + pass_sum raise_op2_left strength2 (get_hc_op_name site2 op2)
                                  (get_hc_op_name site1 op1) site2 site1
                                  (get_hc_op_name site2 op_string) str_on_first pairs2 k))"
  proof (rule impI, elim conjE)
    assume hc: "handle_explicit_plus_hc_array (explicit_plus_hc self) plus_hc0 strength1
                  = Inr (plus_hc, strength)"
      and ok: "realizable strength (coupling_L self category) pairs"
    show "(pass_error raise_op2_left strength pairs \<noteq> None \<or> \<not> plus_hc
                   \<longrightarrow> snd R = pass_error raise_op2_left strength pairs
                       \<and> (\<forall>k. net_coupling (fst R) category k = net_coupling self category k
                              + pass_sum raise_op2_left strength op1 op2 site1 site2 op_string
                                  str_on_first pairs k))
                \<and> (pass_error raise_op2_left strength pairs = None \<and> plus_hc
                     \<and> np_any_nonzero strength
                     \<and> valid_opname site2 (get_hc_op_name site2 op2)
                     \<and> valid_opname site1 (get_hc_op_name site1 op1)
                     \<and> list_all (\<lambda>s. valid_opname s (get_hc_op_name site2 op_string))
                          (unit_cell (lat self))
                     \<and> (get_hc_op_name site2 op_string = ''JW'' \<longrightarrow> str_on_first)
                     \<and> possible_couplings (lat self) u2 u1 (map uminus dx) = (pairs2, shape2)
                     \<and> to_array tools (np_conj strength) shape2 = Some strength2
                     \<and> realizable strength2 (coupling_L self category) pairs2
                   \<longrightarrow> snd R = pass_error raise_op2_left strength2 pairs2
                       \<and> (\<forall>k. net_coupling (fst R) category k = net_coupling self category k
                              + pass_sum raise_op2_left strength op1 op2 site1 site2 op_string
                                  str_on_first pairs k
                              + pass_sum raise_op2_left strength2 (get_hc_op_name site2 op2)
                                  (get_hc_op_name site1 op1) site2 site1
                                  (get_hc_op_name site2 op_string) str_on_first pairs2 k))"
      by (rule add_coupling_net [OF nz dx s1 s2 os pc ta hc cat ok R])
  qed
qed

theorem add_coupling_stores_canonical_order_witness:
  "snd (add_coupling chain_tools (empty_model (chain 3 fermion_site) False) (scalar 3)
          0 ''Cd'' 0 ''C'' [1] None False False None True) = None
   \<and> net_coupling (fst (add_coupling chain_tools (empty_model (chain 3 fermion_site) False)
                           (scalar 3) 0 ''Cd'' 0 ''C'' [1] None False False None True))
        ''Cd_i C_j'' (0, 1, ''Cd JW'', ''C'', ''JW'') = 3
   \<and> net_coupling (fst (add_coupling chain_tools (empty_model (chain 3 fermion_site) False)
                           (scalar 3) 0 ''Cd'' 0 ''C'' [1] None False False None True))
        ''Cd_i C_j'' (0, 1, ''C JW'', ''Cd'', ''JW'') = - 3
   \<and> net_coupling (fst (add_coupling chain_tools (empty_model (chain 3 fermion_site) False)
                           (scalar 3) 0 ''Cd'' 0 ''C'' [1] None False False None True))
        ''Cd_i C_j'' (1, 0, ''Cd JW'', ''C'', ''JW'') = 0
   \<and> snd (add_coupling chain_tools (empty_model (chain 3 fermion_site) False) (scalar 3)
          0 ''Cd'' 0 ''C'' [- 1] None False True None False) = Some Op2Left
   \<and> net_coupling (fst (add_coupling chain_tools (empty_model (chain 3 fermion_site) False)
                           (scalar 3) 0 ''Cd'' 0 ''C'' [- 1] None False True None False))
        ''Cd_i C_j'' (0, 1, ''C JW'', ''Cd'', ''JW'') = 0"
proof -
  let ?M = "empty_model (chain 3 fermion_site) False"
  let ?up = "[(0, 1, [0]), (1, 2, [1])] :: (int \<times> int \<times> nat list) list"
  let ?down = "[(1, 0, [0]), (2, 1, [1])] :: (int \<times> int \<times> nat list) list"
  let ?s = "NDArray complex128 [2] [3, 3]"
  let ?R1 = "add_coupling chain_tools ?M (scalar 3) 0 ''Cd'' 0 ''C'' [1] None False False None True"
  let ?R2 = "add_coupling chain_tools ?M (scalar 3) 0 ''Cd'' 0 ''C'' [- 1] None False True None False"
  have nz: "np_any_nonzero (scalar 3)" "np_any_nonzero ?s"
    by (simp_all add: scalar_def np_any_nonzero_def)
  have dx: "length [1::int] = lat_dim (lat ?M)" "length [- 1::int] = lat_dim (lat ?M)"
    by (simp_all add: empty_model_def chain_def)
  have u: "py_index (unit_cell (lat ?M)) 0 = Inr fermion_site"
    by (simp add: empty_model_def chain_def py_index_def)
  have v: "valid_opname fermion_site ''Cd''" "valid_opname fermion_site ''C''"
    "list_all (\<lambda>s. valid_opname s ''JW'') (unit_cell (lat ?M))"
    "get_hc_op_name fermion_site ''Cd'' = ''C''" "get_hc_op_name fermion_site ''C'' = ''Cd''"
    "get_hc_op_name fermion_site ''JW'' = ''JW''"
    by (simp_all add: fermion_site_def empty_model_def chain_def)
  have os: "determine_op_string fermion_site ''Cd'' fermion_site ''C'' None False
              = Inr (''JW'', True)"
    by (simp add: determine_op_string_def fermion_site_def)
  have pc: "possible_couplings (lat ?M) 0 0 [1] = (?up, [2])"
    "possible_couplings (lat ?M) 0 0 [- 1] = (?down, [2])"
    by (simp_all add: empty_model_def chain_def Let_def upt_rec)
  have ta: "to_array (chain_tools :: complex list tools) (scalar 3) [2] = Some ?s"
    "to_array (chain_tools :: complex list tools) (np_conj ?s) [2] = Some ?s"
    by (simp_all add: chain_tools_def scalar_def np_conj_def numeral_2_eq_2)
  have hc: "handle_explicit_plus_hc_array (explicit_plus_hc ?M) True ?s = Inr (True, ?s)"
    "handle_explicit_plus_hc_array (explicit_plus_hc ?M) False ?s = Inr (False, ?s)"
    by (simp_all add: handle_explicit_plus_hc_array_def empty_model_def)
  have re: "realizable ?s (coupling_L ?M ''Cd_i C_j'') ?up"
    "realizable ?s (coupling_L ?M ''Cd_i C_j'') ?down"
    by (simp_all add: realizable_def coupling_L_def np_get_def empty_model_def chain_def)
  have pe: "pass_error False ?s ?up = None" "pass_error False ?s ?down = None"
    "pass_error True ?s ?down = Some Op2Left"
    by (simp_all add: pass_error_def stored_pairs_def np_get_def)
  have n0: "net_coupling ?M ''Cd_i C_j'' k = 0" for k
    by (simp add: net_coupling_def empty_model_def)
  have ps: "pass_sum False ?s ''Cd'' ''C'' fermion_site fermion_site ''JW'' True ?up
              (0, 1, ''Cd JW'', ''C'', ''JW'') = 3"
    "pass_sum False ?s ''Cd'' ''C'' fermion_site fermion_site ''JW'' True ?up
              (0, 1, ''C JW'', ''Cd'', ''JW'') = 0"
    "pass_sum False ?s ''Cd'' ''C'' fermion_site fermion_site ''JW'' True ?up
              (1, 0, ''Cd JW'', ''C'', ''JW'') = 0"
    "pass_sum False ?s ''Cd'' ''C'' fermion_site fermion_site ''JW'' True ?down
              (0, 1, ''Cd JW'', ''C'', ''JW'') = 0"
    "pass_sum False ?s ''Cd'' ''C'' fermion_site fermion_site ''JW'' True ?down
              (0, 1, ''C JW'', ''Cd'', ''JW'') = - 3"
    "pass_sum False ?s ''Cd'' ''C'' fermion_site fermion_site ''JW'' True ?down
              (1, 0, ''Cd JW'', ''C'', ''JW'') = 0"
    "pass_sum True ?s ''Cd'' ''C'' fermion_site fermion_site ''JW'' True ?down
              (0, 1, ''C JW'', ''Cd'', ''JW'') = 0"
    by (simp_all add: pass_sum_def stored_pairs_def pair_contribution_def canonical_coupling_def
          np_get_def fermion_site_def)
  have T1: "snd ?R1 = None
            \<and> (\<forall>k. net_coupling (fst ?R1) ''Cd_i C_j'' k
                     = pass_sum False ?s ''Cd'' ''C'' fermion_site fermion_site ''JW'' True ?up k
                       + pass_sum False ?s ''Cd'' ''C'' fermion_site fermion_site ''JW'' True
                           ?down k)"
    using hc(1) re pe(1,2) nz(2) v pc(2) ta(2)
      add_coupling_stores_canonical_order [where tools = chain_tools and self = ?M
        and ?strength0.0 = "scalar 3" and dx = "[1]" and ?u1.0 = 0 and ?u2.0 = 0
        and ?site1.0 = fermion_site and ?site2.0 = fermion_site
        and ?op1.0 = "''Cd''" and ?op2.0 = "''C''"
        and ?op_string0.0 = None and ?str_on_first0.0 = False
        and op_string = "''JW''" and str_on_first = True
        and pairs = ?up and strength_shape = "[2]" and ?strength1.0 = ?s
        and category = "''Cd_i C_j''" and ?category0.0 = None
        and raise_op2_left = False and ?plus_hc0.0 = True and plus_hc = True and strength = ?s
        and ?pairs2.0 = ?down and ?shape2.0 = "[2]" and ?strength2.0 = ?s and R = ?R1,
        OF nz(1) dx(1) _ u v(1) u v(2) os v(3) _ pc(1) ta(1) _ refl]
    by (simp add: n0)
  have T2: "snd ?R2 = Some Op2Left
            \<and> (\<forall>k. net_coupling (fst ?R2) ''Cd_i C_j'' k
                     = pass_sum True ?s ''Cd'' ''C'' fermion_site fermion_site ''JW'' True ?down k)"
    using hc(2) re(2) pe(3)
      add_coupling_stores_canonical_order [where tools = chain_tools and self = ?M
        and ?strength0.0 = "scalar 3" and dx = "[- 1]" and ?u1.0 = 0 and ?u2.0 = 0
        and ?site1.0 = fermion_site and ?site2.0 = fermion_site
        and ?op1.0 = "''Cd''" and ?op2.0 = "''C''"
        and ?op_string0.0 = None and ?str_on_first0.0 = False
        and op_string = "''JW''" and str_on_first = True
        and pairs = ?down and strength_shape = "[2]" and ?strength1.0 = ?s
        and category = "''Cd_i C_j''" and ?category0.0 = None
        and raise_op2_left = True and ?plus_hc0.0 = False and plus_hc = False and strength = ?s
        and R = ?R2, OF nz(1) dx(2) _ u v(1) u v(2) os v(3) _ pc(2) ta(1) _ refl]
    by (simp add: n0)
  show ?thesis using T1 T2 by (simp add: ps del: One_nat_def)
qed

section \<open>Atomicity of the \<^verbatim>\<open>add_*\<close> calls\<close>

text \<open>
  Whenever \<^verbatim>\<open>add_onsite_term\<close> gets to its \<^verbatim>\<open>plus_hc\<close> branch it raises: the
  branch reads the name \<^verbatim>\<open>opname\<close>, which the method does not define (its argument is
  \<^verbatim>\<open>op\<close>). The first term has been stored by then.
\<close>

lemma add_onsite_term_plus_hc_raises:
  assumes "\<not> explicit_plus_hc self"
  shows "snd (add_onsite_term self strength i op category True) \<noteq> None"
  using assms
  by (simp add: add_onsite_term_def Let_def split: prod.splits sum.splits)

text \<open>
  Claim C9 (add-call atomicity): if an \<^verbatim>\<open>add_*\<close> call raises, \<^verbatim>\<open>onsite_terms\<close> and
  \<^verbatim>\<open>coupling_terms\<close> are as they were before the call. The code does not keep this for
  \<^verbatim>\<open>add_onsite_term\<close>: on an empty model of a two-site spin chain without
  \<^verbatim>\<open>explicit_plus_hc\<close>, the call \<^verbatim>\<open>add_onsite_term(1., 0, 'Sz', plus_hc=True)\<close>
  raises \<^verbatim>\<open>NameError\<close> after it has created the category \<^verbatim>\<open>'Sz'\<close> and stored the
  term in it.
\<close>

theorem add_onsite_term_raises_after_storing:
  "add_onsite_term (empty_model (chain 2 spin_half_site) False) 1 0 ''Sz'' None True
     = (\<lparr> lat = chain 2 spin_half_site,
           onsite_terms = [(''Sz'', OnsiteTerms 2 [((0, ''Sz''), 1)])],
           coupling_terms = [],
           explicit_plus_hc = False \<rparr>,
        Some NameError)"
  by (simp add: add_onsite_term_def empty_model_def setdefault_def ot_add_onsite_term_def
        chain_def py_index_def Let_def)

section \<open>The explicit Hermitian conjugate of a multi-site term\<close>

text \<open>
  Claim C2: \<^verbatim>\<open>add_multi_coupling_term(..., plus_hc=True)\<close> without
  \<^verbatim>\<open>explicit_plus_hc\<close> stores the term and a second term with conjugated strength whose
  operator names are the Hermitian conjugates. The code computes the conjugate names
  (\<^verbatim>\<open>hc_ops\<close>, \<^verbatim>\<open>hc_op_string\<close>) and then stores the second term under the original
  names: for \<open>S\<^sup>+\<^sub>0 S\<^sup>z\<^sub>1 S\<^sup>-\<^sub>2\<close> with strength 1 on a three-site spin chain the
  collection holds the original term with strength 2 and no term
  \<open>S\<^sup>-\<^sub>0 S\<^sup>z\<^sub>1 S\<^sup>+\<^sub>2\<close>.
\<close>

theorem add_multi_coupling_term_plus_hc_stores_original_twice:
  "coupling_terms (fst (add_multi_coupling_term (empty_model (chain 3 spin_half_site) False) 1
       [0, 1, 2] [''Sp'', ''Sz'', ''Sm''] [''Id'', ''Id''] None True))
     = [(''Sp_i Sz_j Sm_k'',
         MultiCouplingTerms 3 []
           [(([0, 1, 2], [''Sp'', ''Sz'', ''Sm''], [''Id'', ''Id'']), 2)])]"
  by code_simp

section \<open>The flag \<^verbatim>\<open>explicit_plus_hc\<close>\<close>



















section \<open>The bond Hamiltonian of an MPO\<close>

lemma foldM_append:
  "foldM f s (xs @ ys) = andthen (foldM f s xs) (\<lambda>s'. foldM f s' ys)"
  by (induction xs arbitrary: s) (auto simp: andthen_def split: sum.splits)

lemma multiply_bond_body_H_bond:
  assumes "multiply_bond_body npc H (Ws, Hb) j = Inr (Ws', Hb')"
  shows "if mpo_finite H \<and> j = 0 then Hb' = Hb else (\<exists>t. Hb' = Hb[j := Some t])"
  using assms
  by (auto simp: multiply_bond_body_def andthen_def Let_def split: sum.splits if_splits)

lemma multiply_bonds_invariant:
  assumes "foldM (multiply_bond_body npc H) (Ws, replicate L None) [0..<n] = Inr (Ws', Hb)"
    and "n \<le> L"
  shows "length Hb = L
         \<and> (\<forall>j<L. Hb ! j \<noteq> None \<longleftrightarrow> (j < n \<and> \<not> (mpo_finite H \<and> j = 0)))"
  using assms
proof (induction n arbitrary: Ws' Hb)
  case 0
  then show ?case by auto
next
  case (Suc n)
  from Suc.prems(1) obtain Ws1 Hb1 where
    f: "foldM (multiply_bond_body npc H) (Ws, replicate L None) [0..<n] = Inr (Ws1, Hb1)"
    and b: "multiply_bond_body npc H (Ws1, Hb1) n = Inr (Ws', Hb)"
    by (auto simp: foldM_append andthen_def split: sum.splits)
  from Suc.IH [OF f] Suc.prems(2)
  have I: "length Hb1 = L" "\<forall>j<L. Hb1 ! j \<noteq> None \<longleftrightarrow> (j < n \<and> \<not> (mpo_finite H \<and> j = 0))"
    by auto
  show ?case
  proof (cases "mpo_finite H \<and> n = 0")
    case True
    with multiply_bond_body_H_bond [OF b] have "Hb = Hb1" by simp
    with I True show ?thesis by (auto simp: less_Suc_eq)
  next
    case False
    with multiply_bond_body_H_bond [OF b] obtain t where "Hb = Hb1[n := Some t]" by auto
    with I False Suc.prems(2) show ?thesis
      by (auto simp: less_Suc_eq nth_list_update)
  qed
qed

lemma merge_onsite_body_length [simp]:
  "length (merge_onsite_body npc H Ho Hb j) = length Hb"
  by (simp add: merge_onsite_body_def Let_def)

lemma merge_onsite_body_other:
  "k \<noteq> j \<Longrightarrow> merge_onsite_body npc H Ho Hb j ! k = Hb ! k"
  by (simp add: merge_onsite_body_def Let_def)

lemma merge_onsite_fold_length [simp]:
  "length (foldl (merge_onsite_body npc H Ho) Hb js) = length Hb"
  by (induction js arbitrary: Hb) auto

lemma merge_onsite_fold_nth:
  assumes "n \<le> length Hb" "k < length Hb"
  shows "foldl (merge_onsite_body npc H Ho) Hb [0..<n] ! k
           = (if k < n then merge_onsite_body npc H Ho Hb k ! k else Hb ! k)"
  using assms
proof (induction n arbitrary: k)
  case 0
  then show ?case by simp
next
  case (Suc n)
  let ?F = "foldl (merge_onsite_body npc H Ho) Hb [0..<n]"
  have IH: "?F ! k = (if k < n then merge_onsite_body npc H Ho Hb k ! k else Hb ! k)"
    using Suc by simp
  have n: "?F ! n = Hb ! n" using Suc.IH [of n] Suc.prems by simp
  show ?case
  proof (cases "k = n")
    case True
    have "merge_onsite_body npc H Ho ?F n ! n = merge_onsite_body npc H Ho Hb n ! n"
      using Suc.prems n by (simp add: merge_onsite_body_def Let_def)
    with True show ?thesis by simp
  next
    case False
    then show ?thesis using IH by (simp add: merge_onsite_body_other less_Suc_eq)
  qed
qed

lemma take_out_bonds_H_bond:
  assumes "take_out_bonds npc H = Inr (Ws, H_onsite, H_bond0)"
  shows "length H_bond0 = length (mpo_sites H)
         \<and> (\<forall>j<length (mpo_sites H). H_bond0 ! j \<noteq> None \<longleftrightarrow> \<not> (mpo_finite H \<and> j = 0))"
proof -
  from assms obtain Ws1 where
    "foldM (multiply_bond_body npc H) (Ws1, replicate (length (mpo_sites H)) None)
       [0..<length (mpo_sites H)] = Inr (Ws, H_bond0)"
    by (auto simp: take_out_bonds_def andthen_def Let_def split: sum.splits prod.splits)
  from multiply_bonds_invariant [OF this] show ?thesis by auto
qed

lemma merged_bond:
  assumes "Hb0 ! j = Some Hb" "j < length Hb0" "\<not> (mpo_finite H \<and> j = 0)"
    "j < length (mpo_sites H)"
  shows "merge_onsite_body npc H Ho Hb0 j ! j = Some (redistributed_bond npc H Ho j Hb)"
proof -
  let ?L = "length (mpo_sites H)"
  have i: "mpo_finite H \<Longrightarrow> (j + ?L - 1) mod ?L = j - 1" "mpo_finite H \<Longrightarrow> j - 1 \<noteq> ?L - 1"
    "mpo_finite H \<Longrightarrow> j \<noteq> 0"
    using assms(3,4) by (auto simp: mod_if)
  show ?thesis
  proof (cases "mpo_finite H")
    case True
    with i have "(j + ?L - 1) mod ?L = j - 1" "j - 1 \<noteq> ?L - 1" "j \<noteq> 0" by auto
    then show ?thesis
      using assms True
      by (simp add: merge_onsite_body_def redistributed_bond_def onsite_weight_def Let_def
            add_with_None_0_def)
  next
    case False
    then show ?thesis
      using assms
      by (simp add: merge_onsite_body_def redistributed_bond_def onsite_weight_def Let_def
            add_with_None_0_def)
  qed
qed

text \<open>
  Claim C5: \<^verbatim>\<open>calc_H_bond_from_MPO\<close> puts the onsite term of each site onto the
  adjacent bonds with weight 1 at the two ends of a finite chain and weight 1/2
  elsewhere. When the two extracting loops succeed and leave nothing above the
  tolerance, the method returns a list of length \<open>L\<close>; for finite boundary conditions its
  entry 0 is \<^verbatim>\<open>None\<close>; every other entry \<open>j\<close> (every entry, for infinite boundary
  conditions) is the product \<open>Hb\<close> across the bond \<open>(j - 1, j)\<close> plus the weighted onsite
  terms of the sites \<open>j - 1\<close> and \<open>j\<close>, with its Hermitian conjugate added when
  \<^verbatim>\<open>explicit_plus_hc\<close> is set.
\<close>

theorem onsite_terms_redistributed_onto_bonds:
  assumes tb: "take_out_bonds npc (H_MPO self) = Inr (Ws, H_onsite, H_bond0)"
    and nr: "\<not> list_ex (\<lambda>W. norm_W npc W > tol_zero) Ws"
    and ex: "attr_explicit_plus_hc self = Some e"
    and L: "L = length (mpo_sites (H_MPO self))" "0 < L"
  shows "\<exists>H_bond. calc_H_bond_from_MPO npc self tol_zero = Inr H_bond
           \<and> length H_bond = L
           \<and> (mpo_finite (H_MPO self) \<longrightarrow> H_bond ! 0 = None)
           \<and> (\<forall>j<L. \<not> (mpo_finite (H_MPO self) \<and> j = 0) \<longrightarrow>
                 (\<exists>Hb. H_bond0 ! j = Some Hb
                    \<and> H_bond ! j
                      = Some (let t = redistributed_bond npc (H_MPO self) H_onsite j Hb
                              in if e then tadd npc t (hconj npc t) else t)))"
proof -
  let ?H = "H_MPO self"
  let ?M = "foldl (merge_onsite_body npc ?H H_onsite) H_bond0 [0..<L]"
  from take_out_bonds_H_bond [OF tb] L
  have len: "length H_bond0 = L"
    and some: "\<And>j. j < L \<Longrightarrow> H_bond0 ! j \<noteq> None \<longleftrightarrow> \<not> (mpo_finite ?H \<and> j = 0)"
    by auto
  have lenM: "length ?M = L" using len by simp
  have M0: "mpo_finite ?H \<Longrightarrow> ?M ! 0 = None"
    using merge_onsite_fold_nth [of L H_bond0 0 npc ?H H_onsite] len L some [of 0]
    by (simp add: merge_onsite_body_def)
  have Mj: "\<exists>Hb. H_bond0 ! j = Some Hb
              \<and> ?M ! j = Some (redistributed_bond npc ?H H_onsite j Hb)"
    if "j < L" "\<not> (mpo_finite ?H \<and> j = 0)" for j
  proof -
    from some [OF that(1)] that(2) obtain Hb where Hb: "H_bond0 ! j = Some Hb" by auto
    have "?M ! j = merge_onsite_body npc ?H H_onsite H_bond0 j ! j"
      using merge_onsite_fold_nth [of L H_bond0 j npc ?H H_onsite] len that(1) by simp
    also have "\<dots> = Some (redistributed_bond npc ?H H_onsite j Hb)"
      using merged_bond [OF Hb _ that(2)] len that(1) L by simp
    finally show ?thesis using Hb by blast
  qed
  have ne: "?M \<noteq> []"
  proof
    assume "?M = []"
    then have "length ?M = 0" by simp
    with lenM L show False by simp
  qed
  have hd0: "hd ?M = ?M ! 0" using ne by (simp add: hd_conv_nth)
  define R where "R = (if e then plus_hermitian_conjugate npc ?M else ?M)"
  have calc: "calc_H_bond_from_MPO npc self tol_zero = Inr R"
    using tb nr ex ne M0 hd0 L(1)
    by (cases e) (auto simp: calc_H_bond_from_MPO_def andthen_def Let_def R_def)
  have lenR: "length R = L" using lenM by (simp add: R_def plus_hermitian_conjugate_def)
  have R0: "mpo_finite ?H \<Longrightarrow> R ! 0 = None"
    using M0 lenM L by (simp add: R_def plus_hermitian_conjugate_def)
  have Rj: "\<exists>Hb. H_bond0 ! j = Some Hb
              \<and> R ! j = Some (let t = redistributed_bond npc ?H H_onsite j Hb
                              in if e then tadd npc t (hconj npc t) else t)"
    if "j < L" "\<not> (mpo_finite ?H \<and> j = 0)" for j
    using Mj [OF that] that(1) lenM
    by (auto simp: R_def plus_hermitian_conjugate_def Let_def)
  show ?thesis using calc lenR R0 Rj by blast
qed

lemma nn_take_out_bonds:
  "take_out_bonds sym_npc (H_MPO nn_mpo_model)
     = Inr (replicate 3 (replicate 3 (replicate 3 Zero)),
            [Some (Op ''h0''), Some (Op ''h1''), Some (Op ''h2'')],
            [None, Some (Dot [Zero, Op ''A0'', Zero] [Zero, Op ''B1'', Zero]),
             Some (Dot [Zero, Op ''A1'', Zero] [Zero, Op ''B2'', Zero])])"
  by code_simp

lemma nn_nothing_left:
  "\<not> list_ex (\<lambda>W. norm_W sym_npc W > default_tol_zero)
       (replicate 3 (replicate 3 (replicate 3 Zero)))"
  by code_simp

theorem onsite_terms_redistributed_onto_bonds_witness:
  "\<exists>H_bond. calc_H_bond_from_MPO sym_npc nn_mpo_model default_tol_zero = Inr H_bond
     \<and> length H_bond = 3
     \<and> H_bond ! 0 = None
     \<and> H_bond ! 1 = Some (Labels
          (Plus (Dot [Zero, Op ''A0'', Zero] [Zero, Op ''B1'', Zero])
             (Plus (Outer (Op ''Id'') (Times (1 / 2) (Op ''h1'')))
                   (Outer (Op ''h0'') (Op ''Id''))))
          [''p0'', ''p0*'', ''p1'', ''p1*''])
     \<and> H_bond ! 2 = Some (Labels
          (Plus (Dot [Zero, Op ''A1'', Zero] [Zero, Op ''B2'', Zero])
             (Plus (Outer (Op ''Id'') (Op ''h2''))
                   (Outer (Times (1 / 2) (Op ''h1'')) (Op ''Id''))))
          [''p0'', ''p0*'', ''p1'', ''p1*''])"
proof -
  have ex: "attr_explicit_plus_hc nn_mpo_model = Some False"
    and L: "3 = length (mpo_sites (H_MPO nn_mpo_model))" "0 < (3::nat)"
    and f: "mpo_finite (H_MPO nn_mpo_model)"
    by (simp_all add: nn_mpo_model_def)
  from onsite_terms_redistributed_onto_bonds [OF nn_take_out_bonds nn_nothing_left ex L]
  obtain H_bond where c: "calc_H_bond_from_MPO sym_npc nn_mpo_model default_tol_zero = Inr H_bond"
    and l: "length H_bond = 3"
    and z: "mpo_finite (H_MPO nn_mpo_model) \<longrightarrow> H_bond ! 0 = None"
    and j: "\<forall>j<3. \<not> (mpo_finite (H_MPO nn_mpo_model) \<and> j = 0) \<longrightarrow>
              (\<exists>Hb. [None, Some (Dot [Zero, Op ''A0'', Zero] [Zero, Op ''B1'', Zero]),
                      Some (Dot [Zero, Op ''A1'', Zero] [Zero, Op ''B2'', Zero])] ! j = Some Hb
                 \<and> H_bond ! j
                   = Some (let t = redistributed_bond sym_npc (H_MPO nn_mpo_model)
                                     [Some (Op ''h0''), Some (Op ''h1''), Some (Op ''h2'')] j Hb
                           in if False then tadd sym_npc t (hconj sym_npc t) else t))"
    by blast
  from j [rule_format, of 1] j [rule_format, of 2]
  have "H_bond ! 1 = Some (redistributed_bond sym_npc (H_MPO nn_mpo_model)
                     [Some (Op ''h0''), Some (Op ''h1''), Some (Op ''h2'')] 1
                     (Dot [Zero, Op ''A0'', Zero] [Zero, Op ''B1'', Zero]))"
    "H_bond ! 2 = Some (redistributed_bond sym_npc (H_MPO nn_mpo_model)
                     [Some (Op ''h0''), Some (Op ''h1''), Some (Op ''h2'')] 2
                     (Dot [Zero, Op ''A1'', Zero] [Zero, Op ''B2'', Zero]))"
    by simp_all
  then have "H_bond ! 1 = Some (Labels
          (Plus (Dot [Zero, Op ''A0'', Zero] [Zero, Op ''B1'', Zero])
             (Plus (Outer (Op ''Id'') (Times (1 / 2) (Op ''h1'')))
                   (Outer (Op ''h0'') (Op ''Id''))))
          [''p0'', ''p0*'', ''p1'', ''p1*''])"
    "H_bond ! 2 = Some (Labels
          (Plus (Dot [Zero, Op ''A1'', Zero] [Zero, Op ''B2'', Zero])
             (Plus (Outer (Op ''Id'') (Op ''h2''))
                   (Outer (Times (1 / 2) (Op ''h1'')) (Op ''Id''))))
          [''p0'', ''p0*'', ''p1'', ''p1*''])"
    by (simp_all add: redistributed_bond_def onsite_weight_def sym_npc_def nn_mpo_model_def
          sym_site_def Let_def)
  with c l z f show ?thesis by blast
qed

lemma andthen_Inl: "andthen x f = Inl e \<Longrightarrow> x = Inl e \<or> (\<exists>v. x = Inr v \<and> f v = Inl e)"
  by (auto simp: andthen_def split: sum.splits)

lemma foldM_error:
  assumes "foldM body s xs = Inl e"
  shows "\<exists>s' x. body s' x = Inl e"
  using assms
  by (induction xs arbitrary: s) (auto simp: andthen_def split: sum.splits)

lemma mapM_error:
  assumes "mapM f xs = Inl e"
  shows "\<exists>x. f x = Inl e"
  using assms
  by (induction xs) (auto split: sum.splits)

lemma channel_error: "channel n a = Inl e \<Longrightarrow> e = IndexError \<or> e = TypeError"
  by (auto simp: channel_def split: option.splits if_splits)

lemma take_out_onsite_error:
  "take_out_onsite npc H i W = Inl e \<Longrightarrow> e = IndexError \<or> e = TypeError"
  by (auto simp: take_out_onsite_def andthen_def Let_def
        split: sum.splits if_splits dest: py_index_Inl channel_error)

lemma take_out_onsite_body_error:
  "take_out_onsite_body npc H st i = Inl e \<Longrightarrow> e = IndexError \<or> e = TypeError"
  by (auto simp: take_out_onsite_body_def andthen_def split: sum.splits prod.splits
        dest: take_out_onsite_error)

lemma multiply_bond_body_error:
  "multiply_bond_body npc H st j = Inl e \<Longrightarrow> e = IndexError \<or> e = TypeError"
  by (auto simp: multiply_bond_body_def andthen_def Let_def
        split: sum.splits if_splits prod.splits dest: py_index_Inl channel_error)

lemma take_out_bonds_error:
  assumes "take_out_bonds npc H = Inl e"
  shows "e = IndexError \<or> e = TypeError"
  using assms
  by (auto simp: take_out_bonds_def andthen_def Let_def split: sum.splits prod.splits
        dest!: foldM_error mapM_error
        dest: py_index_Inl take_out_onsite_body_error multiply_bond_body_error)

text \<open>
  Claim C6, amended: after the identities, the onsite terms and the products across the
  bonds have been taken out, \<^verbatim>\<open>calc_H_bond_from_MPO\<close> raises "Bond couplings didn't
  capture everything" exactly when the norm of one of the leftover tensors exceeds
  \<^verbatim>\<open>tol_zero\<close>, the tolerance of the method; a residue of smaller norm passes.
\<close>

theorem leftover_is_checked_against_tol_zero:
  "(calc_H_bond_from_MPO npc self tol_zero = Inl BondsDidNotCapture)
     = (case take_out_bonds npc (H_MPO self) of
          Inl e \<Rightarrow> False
        | Inr (Ws, H_onsite, H_bond) \<Rightarrow> list_ex (\<lambda>W. norm_W npc W > tol_zero) Ws)"
proof (cases "take_out_bonds npc (H_MPO self)")
  case (Inl e)
  with take_out_bonds_error [OF Inl] show ?thesis
    by (auto simp: calc_H_bond_from_MPO_def andthen_def)
next
  case (Inr r)
  obtain Ws H_onsite H_bond where r: "r = (Ws, H_onsite, H_bond)" by (cases r) auto
  show ?thesis
    by (auto simp: calc_H_bond_from_MPO_def andthen_def Inr r Let_def
          split: option.splits bool.splits)
qed

lemma list_update_Cons_numeral:
  "(x # xs)[numeral v := y] = x # xs[numeral v - 1 := y]"
  by (simp add: numeral_eq_Suc)

lemmas mpo_defs = take_out_bonds_def take_out_onsite_body_def take_out_onsite_def
  multiply_bond_body_def andthen_def channel_def wL_dim_def wR_dim_def zero_block_def
  zero_row_def zero_column_def py_index_def Let_def list_update_Cons_numeral

lemma upt3: "[0..<3] = [0, 1, 2]"
  by (simp add: upt_rec)

lemma long_range_take_out_bonds:
  "take_out_bonds flat_npc (H_MPO long_range_mpo_model)
     = Inr (long_range_leftover, [Some Z2, Some Z2, Some Z2], [None, Some Z4, Some Z4])"
  by (simp add: long_range_mpo_model_def long_range_leftover_def mpo_defs flat_npc_def
        Id2_def X2_def Z2_def P2_def Z4_def upt3)

lemma long_range_norms:
  "map (norm_W flat_npc) long_range_leftover = [0, 1 / 10 ^ 16, 0]"
  by (simp add: long_range_leftover_def flat_npc_def Z2_def P2_def norm_divide norm_power
        real_sqrt_divide)

lemma long_range_passes:
  "\<not> list_ex (\<lambda>W. norm_W flat_npc W > default_tol_zero) long_range_leftover"
proof -
  have "list_ex (\<lambda>W. norm_W flat_npc W > default_tol_zero) long_range_leftover
          = list_ex (\<lambda>x. x > default_tol_zero) (map (norm_W flat_npc) long_range_leftover)"
    by (simp add: list_ex_iff)
  then show ?thesis
    unfolding long_range_norms by (simp add: default_tol_zero_def)
qed

lemma long_range_merge:
  "foldl (merge_onsite_body flat_npc (H_MPO long_range_mpo_model) [Some Z2, Some Z2, Some Z2])
     [None, Some Z4, Some Z4] [0..<3] = [None, Some Z4, Some Z4]"
  by (simp add: upt3 merge_onsite_body_def long_range_mpo_model_def flat_npc_def Let_def
        add_with_None_0_def spin_half_site_def Z2_def Z4_def list_update_Cons_numeral)

text \<open>
  Claim C6 says that any nonzero residue raises. On the MPO of the term
  \<open>X\<^sub>0 P\<^sub>1 X\<^sub>2\<close> the middle tensor keeps the block \<open>P\<close> after the extraction, of norm
  \<open>10\<^sup>-\<^sup>1\<^sup>6\<close>, below the default tolerance \<open>10\<^sup>-\<^sup>1\<^sup>5\<close>: the method returns bond tensors
  (all zero) and does not raise.
\<close>

theorem small_residue_passes_counterexample:
  "take_out_bonds flat_npc (H_MPO long_range_mpo_model)
     = Inr (long_range_leftover, [Some Z2, Some Z2, Some Z2], [None, Some Z4, Some Z4])
   \<and> long_range_leftover ! 1 ! 1 ! 1 = [1 / 10 ^ 16, 0, 0, 0]
   \<and> calc_H_bond_from_MPO flat_npc long_range_mpo_model default_tol_zero
     = Inr [None, Some Z4, Some Z4]"
proof -
  have a: "length (mpo_sites (H_MPO long_range_mpo_model)) = 3"
    "mpo_finite (H_MPO long_range_mpo_model)"
    "attr_explicit_plus_hc long_range_mpo_model = Some False"
    by (simp_all add: long_range_mpo_model_def)
  have "calc_H_bond_from_MPO flat_npc long_range_mpo_model default_tol_zero
          = Inr [None, Some Z4, Some Z4]"
    unfolding calc_H_bond_from_MPO_def Let_def long_range_take_out_bonds a
    by (simp add: andthen_def long_range_passes long_range_merge a)
  then show ?thesis
    using long_range_take_out_bonds
    by (simp add: long_range_leftover_def P2_def)
qed

end
